theory Spec2Isabelle
  imports Main "HOL-Library.AList" "HOL-Library.Word"
begin

section \<open>The OAuth stores (oauth.ts)\<close>

text \<open>
  The module keeps two process-wide JavaScript \<^verbatim>\<open>Map\<close>s, \<^verbatim>\<open>activeTokens\<close> and
  \<^verbatim>\<open>authorizationCodes\<close>. A \<^verbatim>\<open>Map\<close> is modelled as an association list in
  insertion order: \<^verbatim>\<open>get\<close> is \<open>map_of\<close>, \<^verbatim>\<open>set\<close> is \<open>AList.update\<close> (an existing
  key keeps its position, a new one goes to the end) and \<^verbatim>\<open>delete\<close> is
  \<open>AList.delete\<close>. Times are the integer milliseconds of \<^verbatim>\<open>Date.now()\<close>; every function
  that reads the clock takes the reading as its argument \<open>now\<close>, and every function that
  draws \<^verbatim>\<open>randomBytes(32).toString('hex')\<close> takes the drawn string as its argument
  \<open>rnd\<close>. Strings are byte strings, so that \<^verbatim>\<open>Buffer.from(s)\<close> is \<open>s\<close> itself.
\<close>

record token_data =
  tokenExpiresAt :: int

record code_data =
  codeChallenge :: string
  codeChallengeMethod :: string
  clientId :: string
  redirectUri :: string
  expiresAt :: int

record oauth_state =
  activeTokens :: "(string \<times> token_data) list"
  authorizationCodes :: "(string \<times> code_data) list"

record config =
  capabilityLevel :: int
  apiKey :: string
  oauthClientId :: "string option"
  oauthClientSecret :: "string option"

record TokenResponse =
  access_token :: string
  token_type :: string
  expires_in :: int

record validation =
  valid :: bool
  error :: "string option"

definition TOKEN_EXPIRATION :: int where
  "TOKEN_EXPIRATION = 3600"

definition AUTH_CODE_EXPIRATION :: int where
  "AUTH_CODE_EXPIRATION = 600"

definition REAPER_INTERVAL :: int where
  "REAPER_INTERVAL = 60000"

text \<open>JavaScript truthiness of a \<^verbatim>\<open>string\<close> and of a \<^verbatim>\<open>string | null | undefined\<close>.\<close>

definition truthy :: "string \<Rightarrow> bool" where
  "truthy s = (s \<noteq> [])"

fun truthy_opt :: "string option \<Rightarrow> bool" where
  "truthy_opt None = False"
| "truthy_opt (Some s) = truthy s"

subsection \<open>The expiry reaper\<close>

text \<open>
  The callback given to \<^verbatim>\<open>setInterval(..., 60000)\<close>: one loop over the entries of each
  map, deleting the entry at hand when its expiry lies before the clock reading taken at
  the start of the callback.
\<close>

definition sweep_tokens :: "int \<Rightarrow> (string \<times> token_data) list \<Rightarrow> (string \<times> token_data) list" where
  "sweep_tokens now m =
     fold (\<lambda>(token, data) acc. if tokenExpiresAt data < now then AList.delete token acc else acc) m m"

definition sweep_codes :: "int \<Rightarrow> (string \<times> code_data) list \<Rightarrow> (string \<times> code_data) list" where
  "sweep_codes now m =
     fold (\<lambda>(code, data) acc. if expiresAt data < now then AList.delete code acc else acc) m m"

definition reaper :: "int \<Rightarrow> oauth_state \<Rightarrow> oauth_state" where
  "reaper now st =
     st\<lparr>activeTokens := sweep_tokens now (activeTokens st),
        authorizationCodes := sweep_codes now (authorizationCodes st)\<rparr>"

text \<open>Keys of a \<^verbatim>\<open>Map\<close> are distinct.\<close>

definition distinct_keys :: "oauth_state \<Rightarrow> bool" where
  "distinct_keys st =
     (distinct (map fst (activeTokens st)) \<and> distinct (map fst (authorizationCodes st)))"

subsection \<open>Comparisons and client credentials\<close>

text \<open>
  \<^verbatim>\<open>crypto.timingSafeEqual\<close> raises a \<^verbatim>\<open>RangeError\<close> on buffers of different lengths
  (\<open>None\<close>); the module's own wrapper returns false before it gets there.
\<close>

definition cryptoTimingSafeEqual :: "string \<Rightarrow> string \<Rightarrow> bool option" where
  "cryptoTimingSafeEqual bufA bufB = (if length bufA \<noteq> length bufB then None else Some (bufA = bufB))"

definition timingSafeEqual :: "string \<Rightarrow> string \<Rightarrow> bool option" where
  "timingSafeEqual a b = (if length a \<noteq> length b then Some False else cryptoTimingSafeEqual a b)"

definition validateClientCredentials :: "string \<Rightarrow> string \<Rightarrow> config \<Rightarrow> bool" where
  "validateClientCredentials cid csecret cfg =
     (case (oauthClientId cfg, oauthClientSecret cfg) of
        (Some cfgId, Some cfgSecret) \<Rightarrow>
          if \<not> truthy cfgId \<or> \<not> truthy cfgSecret then False
          else (case timingSafeEqual cid cfgId of
                  None \<Rightarrow> False
                | Some idMatch \<Rightarrow>
                    (case timingSafeEqual csecret cfgSecret of
                       None \<Rightarrow> False
                     | Some secretMatch \<Rightarrow> idMatch \<and> secretMatch))
      | _ \<Rightarrow> False)"

definition validateClientId :: "string \<Rightarrow> config \<Rightarrow> bool" where
  "validateClientId cid cfg =
     (case oauthClientId cfg of
        None \<Rightarrow> False
      | Some cfgId \<Rightarrow>
          if \<not> truthy cfgId then False
          else (case timingSafeEqual cid cfgId of None \<Rightarrow> False | Some r \<Rightarrow> r))"

subsection \<open>Access tokens\<close>

definition issueToken :: "int \<Rightarrow> string \<Rightarrow> oauth_state \<Rightarrow> oauth_state \<times> TokenResponse" where
  "issueToken now rnd st =
     (let token = rnd;
          exp = now + TOKEN_EXPIRATION * 1000
      in (st\<lparr>activeTokens := AList.update token \<lparr>tokenExpiresAt = exp\<rparr> (activeTokens st)\<rparr>,
          \<lparr>access_token = token, token_type = ''Bearer'', expires_in = TOKEN_EXPIRATION\<rparr>))"

definition validateAccessToken :: "int \<Rightarrow> oauth_state \<Rightarrow> string \<Rightarrow> config \<Rightarrow> oauth_state \<times> bool" where
  "validateAccessToken now st token cfg =
     (if truthy (apiKey cfg) \<and> token = apiKey cfg then (st, True)
      else (case map_of (activeTokens st) token of
              None \<Rightarrow> (st, False)
            | Some tokenData \<Rightarrow>
                if tokenExpiresAt tokenData < now
                then (st\<lparr>activeTokens := AList.delete token (activeTokens st)\<rparr>, False)
                else (st, True)))"

subsection \<open>PKCE\<close>

text \<open>
  \<^verbatim>\<open>createHash('sha256').update(v).digest('base64url')\<close>: the digest function of the
  \<^verbatim>\<open>crypto\<close> library is a parameter \<open>sha256\<close> from strings to the 32 digest bytes; the
  \<^verbatim>\<open>base64url\<close> text encoding of a byte sequence (RFC 4648 section 5, no padding) is
  written out.
\<close>

definition b64url_alphabet :: string where
  "b64url_alphabet = ''ABCDEFGHIJKLMNOPQRSTUVWXYZabcdefghijklmnopqrstuvwxyz0123456789-_''"

definition b64url_char :: "nat \<Rightarrow> char" where
  "b64url_char n = b64url_alphabet ! (n mod 64)"

fun base64url_nat :: "nat list \<Rightarrow> string" where
  "base64url_nat [] = []"
| "base64url_nat [a] = [b64url_char (a div 4), b64url_char ((a mod 4) * 16)]"
| "base64url_nat [a, b] =
     [b64url_char (a div 4), b64url_char ((a mod 4) * 16 + b div 16), b64url_char ((b mod 16) * 4)]"
| "base64url_nat (a # b # c # rest) =
     [b64url_char (a div 4), b64url_char ((a mod 4) * 16 + b div 16),
      b64url_char ((b mod 16) * 4 + c div 64), b64url_char (c mod 64)] @ base64url_nat rest"

definition base64url :: "8 word list \<Rightarrow> string" where
  "base64url bytes = base64url_nat (map unat bytes)"

definition validatePKCE :: "(string \<Rightarrow> 8 word list) \<Rightarrow> string \<Rightarrow> string \<Rightarrow> string \<Rightarrow> bool" where
  "validatePKCE sha256 codeVerifier challenge method =
     (if method = ''S256'' then
        (let hash = base64url (sha256 codeVerifier) in hash = challenge)
      else if method = ''plain'' then codeVerifier = challenge
      else False)"

subsection \<open>Authorization codes\<close>

definition createAuthorizationCode ::
  "int \<Rightarrow> string \<Rightarrow> oauth_state \<Rightarrow> string \<Rightarrow> string \<Rightarrow> string \<Rightarrow> string \<Rightarrow> oauth_state \<times> string" where
  "createAuthorizationCode now rnd st cid ruri challenge method =
     (let code = rnd;
          exp = now + AUTH_CODE_EXPIRATION * 1000
      in (st\<lparr>authorizationCodes :=
               AList.update code
                 \<lparr>codeChallenge = challenge, codeChallengeMethod = method,
                  clientId = cid, redirectUri = ruri, expiresAt = exp\<rparr>
                 (authorizationCodes st)\<rparr>,
          code))"

definition validateAuthorizationCode ::
  "(string \<Rightarrow> 8 word list) \<Rightarrow> int \<Rightarrow> oauth_state \<Rightarrow> string \<Rightarrow> string \<Rightarrow> string \<Rightarrow> string
     \<Rightarrow> oauth_state \<times> validation" where
  "validateAuthorizationCode sha256 now st code cid ruri codeVerifier =
     (case map_of (authorizationCodes st) code of
        None \<Rightarrow> (st, \<lparr>valid = False, error = Some ''Invalid authorization code''\<rparr>)
      | Some codeData \<Rightarrow>
          (let st' = st\<lparr>authorizationCodes := AList.delete code (authorizationCodes st)\<rparr>
           in if expiresAt codeData < now
              then (st', \<lparr>valid = False, error = Some ''Authorization code expired''\<rparr>)
              else if clientId codeData \<noteq> cid
              then (st', \<lparr>valid = False, error = Some ''Client ID mismatch''\<rparr>)
              else if redirectUri codeData \<noteq> ruri
              then (st', \<lparr>valid = False, error = Some ''Redirect URI mismatch''\<rparr>)
              else if \<not> validatePKCE sha256 codeVerifier (codeChallenge codeData)
                           (codeChallengeMethod codeData)
              then (st', \<lparr>valid = False, error = Some ''Invalid code verifier''\<rparr>)
              else (st', \<lparr>valid = True, error = None\<rparr>)))"

text \<open>
  The string comparisons against configured secrets that the validators make, by the
  primitive they are made with: the \<^verbatim>\<open>===\<close> operator or the module's
  \<^verbatim>\<open>timingSafeEqual\<close>. \<^verbatim>\<open>config.apiKey && token === config.apiKey\<close> compares only
  when the key is non-empty.
\<close>

datatype comparison = StrictEquals string string | TimingSafeEqual string string

definition validateAccessToken_comparisons :: "string \<Rightarrow> config \<Rightarrow> comparison list" where
  "validateAccessToken_comparisons token cfg =
     (if truthy (apiKey cfg) then [StrictEquals token (apiKey cfg)] else [])"

definition validateClientCredentials_comparisons :: "string \<Rightarrow> string \<Rightarrow> config \<Rightarrow> comparison list" where
  "validateClientCredentials_comparisons cid csecret cfg =
     (case (oauthClientId cfg, oauthClientSecret cfg) of
        (Some cfgId, Some cfgSecret) \<Rightarrow>
          if \<not> truthy cfgId \<or> \<not> truthy cfgSecret then []
          else [TimingSafeEqual cid cfgId, TimingSafeEqual csecret cfgSecret]
      | _ \<Rightarrow> [])"

text \<open>What a logged comparison returns.\<close>

definition comparison_holds :: "comparison \<Rightarrow> bool" where
  "comparison_holds c =
     (case c of
        StrictEquals a b \<Rightarrow> a = b
      | TimingSafeEqual a b \<Rightarrow> timingSafeEqual a b = Some True)"

section \<open>The tool registry (tools/index.ts)\<close>

text \<open>
  A thrown JavaScript value is an \<^verbatim>\<open>Error\<close> instance with its message, or anything
  else. A tool's handler is an external collaborator: a function of the arguments and the
  configuration that returns a result or throws. Of a \<^verbatim>\<open>ToolDefinition\<close> the
  dispatcher reads the name, the level and the handler.
\<close>

datatype thrown = JsError string | NonError

record ('v, 'r) ToolDefinition =
  name :: string
  level :: int
  handler :: "(string \<rightharpoonup> 'v) \<Rightarrow> config \<Rightarrow> thrown + 'r"

definition registry_levels :: "(string \<times> int) list" where
  "registry_levels =
     [(''docker_list_containers'', 1),
      (''docker_container_logs'', 1),
      (''docker_container_stats'', 1),
      (''system_info'', 1),
      (''opnsense_status'', 1),
      (''truenas_status'', 1),
      (''truenas_alerts'', 1),
      (''proxmox_status'', 1),
      (''proxmox_list_vms'', 1),
      (''proxmox_vm_status'', 1),
      (''home_assistant_status'', 1),
      (''home_assistant_list_entities'', 1),
      (''home_assistant_get_entity'', 1),
      (''docker_restart_container'', 2),
      (''docker_start_container'', 2),
      (''docker_stop_container'', 2),
      (''opnsense_service_restart'', 2),
      (''proxmox_start_vm'', 2),
      (''proxmox_stop_vm'', 2),
      (''proxmox_shutdown_vm'', 2),
      (''proxmox_reboot_vm'', 2),
      (''docker_read_compose'', 3),
      (''docker_read_env_file'', 3),
      (''docker_list_volumes'', 3),
      (''docker_list_networks'', 3),
      (''docker_inspect_container'', 3),
      (''truenas_list_datasets'', 3),
      (''truenas_dataset_info'', 3),
      (''proxmox_vm_config'', 3),
      (''proxmox_list_storage'', 3),
      (''proxmox_list_nodes'', 3),
      (''home_assistant_get_config'', 3),
      (''home_assistant_error_log'', 3),
      (''docker_write_compose'', 4),
      (''docker_compose_up'', 4),
      (''docker_compose_down'', 4),
      (''docker_exec'', 4),
      (''truenas_create_snapshot'', 4),
      (''proxmox_create_snapshot'', 4),
      (''proxmox_delete_vm'', 4)]"

text \<open>The registry \<^verbatim>\<open>ALL_TOOLS\<close>, over an assignment of handlers to the forty names.\<close>

definition ALL_TOOLS ::
  "(string \<Rightarrow> (string \<rightharpoonup> 'v) \<Rightarrow> config \<Rightarrow> thrown + 'r) \<Rightarrow> ('v, 'r) ToolDefinition list" where
  "ALL_TOOLS handlers =
     map (\<lambda>(n, l). \<lparr>name = n, level = l, handler = handlers n\<rparr>) registry_levels"

definition getToolsForLevel :: "('v, 'r) ToolDefinition list \<Rightarrow> int \<Rightarrow> ('v, 'r) ToolDefinition list" where
  "getToolsForLevel tools lvl = filter (\<lambda>tool. level tool \<le> lvl) tools"

definition getTool :: "('v, 'r) ToolDefinition list \<Rightarrow> string \<Rightarrow> ('v, 'r) ToolDefinition option" where
  "getTool tools nm = find (\<lambda>tool. name tool = nm) tools"

section \<open>The dispatcher (index.ts, createMcpServer)\<close>

text \<open>Template literals print an integer in decimal.\<close>

fun show_nat :: "nat \<Rightarrow> string" where
  "show_nat n =
     (if n < 10 then [''0123456789'' ! n]
      else show_nat (n div 10) @ [''0123456789'' ! (n mod 10)])"

declare show_nat.simps [simp del]

definition show_int :: "int \<Rightarrow> string" where
  "show_int i = (if i < 0 then ''-'' @ show_nat (nat (- i)) else show_nat (nat i))"

datatype ErrorCode = MethodNotFound | InvalidRequest

datatype McpError = McpError ErrorCode string

text \<open>
  The text of a content item is a JSON document: \<open>ResultJson s\<close> is the text \<open>s\<close> that
  \<^verbatim>\<open>JSON.stringify(result, null, 2)\<close> produced, \<open>ErrorJson e c m\<close> is the serialised object
  \<^verbatim>\<open>{ error: e, code: c, message: m }\<close>. In a result, \<open>isError = None\<close> says that the
  key is absent.
\<close>

datatype tool_text = ResultJson string | ErrorJson bool string string

record CallToolResult =
  content :: "tool_text list"
  isError :: "bool option"

record 'v CallToolRequest =
  params_name :: string
  params_arguments :: "(string \<rightharpoonup> 'v) option"

definition listTools :: "('v, 'r) ToolDefinition list \<Rightarrow> config \<Rightarrow> string list" where
  "listTools tools cfg = map name (getToolsForLevel tools (capabilityLevel cfg))"

definition errorMessage :: "thrown \<Rightarrow> string" where
  "errorMessage e = (case e of JsError m \<Rightarrow> m | NonError \<Rightarrow> ''Unknown error'')"

definition toolError :: "thrown \<Rightarrow> CallToolResult" where
  "toolError e =
     \<lparr>content = [ErrorJson True ''TOOL_EXECUTION_ERROR'' (errorMessage e)], isError = Some True\<rparr>"

text \<open>
  The \<^verbatim>\<open>CallToolRequestSchema\<close> handler. \<open>stringify\<close> is \<^verbatim>\<open>JSON.stringify(\<cdot>, null, 2)\<close>
  on handler results, which throws on a value it cannot serialise; the call sits inside
  the \<^verbatim>\<open>try\<close> block. The list \<open>calls\<close> logs the names of the tools whose handler has
  been invoked. A thrown \<^verbatim>\<open>McpError\<close> is the left summand of the outcome.
\<close>

definition callTool ::
  "('r \<Rightarrow> thrown + string) \<Rightarrow> ('v, 'r) ToolDefinition list \<Rightarrow> config \<Rightarrow> string list
     \<Rightarrow> 'v CallToolRequest \<Rightarrow> string list \<times> (McpError + CallToolResult)" where
  "callTool stringify tools cfg calls request =
     (let toolName = params_name request;
          args = (case params_arguments request of None \<Rightarrow> Map.empty | Some a \<Rightarrow> a)
      in case getTool tools toolName of
           None \<Rightarrow> (calls, Inl (McpError MethodNotFound (''Tool not found: '' @ toolName)))
         | Some tool \<Rightarrow>
             if level tool > capabilityLevel cfg
             then (calls, Inl (McpError InvalidRequest
                     (''Tool '' @ toolName @ '' requires capability level '' @ show_int (level tool)
                        @ '', current level is '' @ show_int (capabilityLevel cfg))))
             else (case handler tool args cfg of
                     Inl e \<Rightarrow> (calls @ [name tool], Inr (toolError e))
                   | Inr result \<Rightarrow>
                       (case stringify result of
                          Inl e \<Rightarrow> (calls @ [name tool], Inr (toolError e))
                        | Inr text \<Rightarrow>
                            (calls @ [name tool],
                             Inr \<lparr>content = [ResultJson text], isError = None\<rparr>))))"

section \<open>The HTTP endpoints (index.ts, createServer)\<close>

text \<open>
  A field of a JSON request body can be any JSON value. Of a value that is no string the
  code observes three things, and \<open>JOther\<close> carries them: whether it is truthy, whether
  its conversion to a string in a template literal succeeds (it throws a
  \<^verbatim>\<open>TypeError\<close> on an object whose \<^verbatim>\<open>toString\<close> and \<^verbatim>\<open>valueOf\<close> are not callable),
  and the bytes that \<^verbatim>\<open>Buffer.from\<close> makes of it (\<open>None\<close> when it throws, as on a
  number; an array of numbers gives its bytes). Such a value is never \<^verbatim>\<open>===\<close> to a
  string, is no key of the two maps, and makes \<^verbatim>\<open>createHash('sha256').update\<close> throw.
\<close>

datatype jsval = JString string | JOther bool bool "string option"

fun js_truthy :: "jsval \<Rightarrow> bool" where
  "js_truthy (JString s) = truthy s"
| "js_truthy (JOther t p b) = t"

fun js_printable :: "jsval \<Rightarrow> bool" where
  "js_printable (JString s) = True"
| "js_printable (JOther t p b) = p"

fun js_buffer :: "jsval \<Rightarrow> string option" where
  "js_buffer (JString s) = Some s"
| "js_buffer (JOther t p b) = b"

text \<open>The same observations of a variable that may be undefined.\<close>

fun truthy_val :: "jsval option \<Rightarrow> bool" where
  "truthy_val None = False"
| "truthy_val (Some v) = js_truthy v"

fun printable_val :: "jsval option \<Rightarrow> bool" where
  "printable_val None = True"
| "printable_val (Some v) = js_printable v"

text \<open>
  Library functions the endpoints call are fields of a record: the SHA-256 digest,
  \<^verbatim>\<open>decodeURIComponent\<close> (\<open>None\<close> when it throws a \<^verbatim>\<open>URIError\<close>), \<^verbatim>\<open>JSON.parse\<close>
  followed by the reads of the six request fields (\<open>None\<close> when either throws; a field
  that is absent is undefined), the lenient base64 decoding of
  \<^verbatim>\<open>Buffer.from(s, 'base64').toString('utf-8')\<close>, and whether \<^verbatim>\<open>new URL(s)\<close> accepts
  a string.
\<close>

record lib =
  crypto_sha256 :: "string \<Rightarrow> 8 word list"
  js_decodeURIComponent :: "string \<Rightarrow> string option"
  js_JSON_parse :: "string \<Rightarrow> (string \<rightharpoonup> jsval) option"
  buffer_base64_decode :: "string \<Rightarrow> string"
  url_accepts :: "string \<Rightarrow> bool"

datatype json_body = TokenBody TokenResponse | OAuthError string "string option"

text \<open>
  A response is a status with a JSON body, or the 302 redirect whose \<^verbatim>\<open>Location\<close> is
  the given URL with the listed search parameters set.
\<close>

datatype http_response = Json nat json_body | Redirect string "(string \<times> string) list"

definition hasOAuth :: "config \<Rightarrow> bool" where
  "hasOAuth cfg = (truthy_opt (oauthClientId cfg) \<and> truthy_opt (oauthClientSecret cfg))"

definition startsWith :: "string \<Rightarrow> string \<Rightarrow> bool" where
  "startsWith s p = (take (length p) s = p)"

fun str_includes :: "string \<Rightarrow> string \<Rightarrow> bool" where
  "str_includes [] sub = (sub = [])"
| "str_includes (c # cs) sub = (take (length sub) (c # cs) = sub \<or> str_includes cs sub)"

fun split_on :: "char \<Rightarrow> string \<Rightarrow> string list" where
  "split_on sep [] = [[]]"
| "split_on sep (c # cs) =
     (if c = sep then [] # split_on sep cs
      else (case split_on sep cs of [] \<Rightarrow> [[c]] | seg # segs \<Rightarrow> (c # seg) # segs))"

subsection \<open>The validators on the values of a request (oauth.ts)\<close>

text \<open>
  The token endpoint passes the fields of the body on as it read them, so the validators
  of oauth.ts, declared on strings, run on any value. These are the same function bodies
  on such values; on strings they are the functions above. \<open>None\<close> is a thrown
  exception: \<open>validatePKCE\<close> throws with method \<^verbatim>\<open>S256\<close> on a verifier that is no
  string, after the code has been deleted, and nothing in \<open>validateAuthorizationCode\<close>
  catches it; \<open>validateClientCredentials\<close> catches what its comparisons throw.
\<close>

definition validatePKCE_js :: "(string \<Rightarrow> 8 word list) \<Rightarrow> jsval \<Rightarrow> string \<Rightarrow> string \<Rightarrow> bool option" where
  "validatePKCE_js sha256 codeVerifier challenge method =
     (if method = ''S256'' then
        (case codeVerifier of
           JString v \<Rightarrow> (let hash = base64url (sha256 v) in Some (hash = challenge))
         | JOther t p b \<Rightarrow> None)
      else if method = ''plain'' then Some (codeVerifier = JString challenge)
      else Some False)"

definition validateAuthorizationCode_js ::
  "(string \<Rightarrow> 8 word list) \<Rightarrow> int \<Rightarrow> oauth_state \<Rightarrow> jsval \<Rightarrow> jsval \<Rightarrow> jsval \<Rightarrow> jsval
     \<Rightarrow> oauth_state \<times> validation option" where
  "validateAuthorizationCode_js sha256 now st code cid ruri codeVerifier =
     (case code of
        JOther t p b \<Rightarrow> (st, Some \<lparr>valid = False, error = Some ''Invalid authorization code''\<rparr>)
      | JString c \<Rightarrow>
          (case map_of (authorizationCodes st) c of
             None \<Rightarrow> (st, Some \<lparr>valid = False, error = Some ''Invalid authorization code''\<rparr>)
           | Some codeData \<Rightarrow>
               (let st' = st\<lparr>authorizationCodes := AList.delete c (authorizationCodes st)\<rparr>
                in if expiresAt codeData < now
                   then (st', Some \<lparr>valid = False, error = Some ''Authorization code expired''\<rparr>)
                   else if JString (clientId codeData) \<noteq> cid
                   then (st', Some \<lparr>valid = False, error = Some ''Client ID mismatch''\<rparr>)
                   else if JString (redirectUri codeData) \<noteq> ruri
                   then (st', Some \<lparr>valid = False, error = Some ''Redirect URI mismatch''\<rparr>)
                   else (case validatePKCE_js sha256 codeVerifier (codeChallenge codeData)
                                (codeChallengeMethod codeData) of
                           None \<Rightarrow> (st', None)
                         | Some ok \<Rightarrow>
                             if \<not> ok
                             then (st', Some \<lparr>valid = False, error = Some ''Invalid code verifier''\<rparr>)
                             else (st', Some \<lparr>valid = True, error = None\<rparr>)))))"

definition timingSafeEqual_js :: "jsval \<Rightarrow> string \<Rightarrow> bool option" where
  "timingSafeEqual_js a b =
     (case js_buffer a of None \<Rightarrow> None | Some bufA \<Rightarrow> timingSafeEqual bufA b)"

definition validateClientCredentials_js :: "jsval \<Rightarrow> jsval \<Rightarrow> config \<Rightarrow> bool" where
  "validateClientCredentials_js cid csecret cfg =
     (case (oauthClientId cfg, oauthClientSecret cfg) of
        (Some cfgId, Some cfgSecret) \<Rightarrow>
          if \<not> truthy cfgId \<or> \<not> truthy cfgSecret then False
          else (case timingSafeEqual_js cid cfgId of
                  None \<Rightarrow> False
                | Some idMatch \<Rightarrow>
                    (case timingSafeEqual_js csecret cfgSecret of
                       None \<Rightarrow> False
                     | Some secretMatch \<Rightarrow> idMatch \<and> secretMatch))
      | _ \<Rightarrow> False)"

subsection \<open>Request parsing (oauth.ts)\<close>

definition parseBasicAuth :: "(string \<Rightarrow> string) \<Rightarrow> string \<Rightarrow> (string \<times> string) option" where
  "parseBasicAuth b64decode authHeader =
     (if \<not> startsWith authHeader ''Basic '' then None
      else (let base64 = drop 6 authHeader;
                decoded = b64decode base64
            in if CHR '':'' \<notin> set decoded then None
               else (let cid = takeWhile (\<lambda>c. c \<noteq> CHR '':'') decoded;
                         csecret = tl (dropWhile (\<lambda>c. c \<noteq> CHR '':'') decoded)
                     in if \<not> truthy cid \<or> \<not> truthy csecret then None
                        else Some (cid, csecret))))"

fun parseFormUrlEncoded_pairs ::
  "(string \<Rightarrow> string option) \<Rightarrow> string list \<Rightarrow> (string \<rightharpoonup> string) \<Rightarrow> (string \<rightharpoonup> string) option" where
  "parseFormUrlEncoded_pairs decode [] params = Some params"
| "parseFormUrlEncoded_pairs decode (pair # pairs) params =
     (case split_on CHR ''='' pair of
        key # val # _ \<Rightarrow>
          if truthy key then
            (case decode key of
               None \<Rightarrow> None
             | Some k \<Rightarrow>
                 (case decode (map (\<lambda>c. if c = CHR ''+'' then CHR '' '' else c) val) of
                    None \<Rightarrow> None
                  | Some v \<Rightarrow> parseFormUrlEncoded_pairs decode pairs (params(k \<mapsto> v))))
          else parseFormUrlEncoded_pairs decode pairs params
      | _ \<Rightarrow> parseFormUrlEncoded_pairs decode pairs params)"

definition parseFormUrlEncoded :: "(string \<Rightarrow> string option) \<Rightarrow> string \<Rightarrow> (string \<rightharpoonup> string) option" where
  "parseFormUrlEncoded decode body =
     parseFormUrlEncoded_pairs decode (split_on CHR ''&'' body) Map.empty"

record token_request =
  content_type :: "string option"
  body :: string
  authorization :: "string option"

text \<open>\<^verbatim>\<open>a || b\<close> on a possibly undefined string and a string.\<close>

definition or_else :: "string option \<Rightarrow> string \<Rightarrow> string option" where
  "or_else a b = (if truthy_opt a then a else Some b)"

definition or_else_val :: "jsval option \<Rightarrow> string \<Rightarrow> jsval option" where
  "or_else_val a b = (if truthy_val a then a else Some (JString b))"

text \<open>
  The first part of the token endpoint's \<^verbatim>\<open>try\<close> block: the six local variables
  \<^verbatim>\<open>grantType\<close>, \<^verbatim>\<open>clientId\<close>, \<^verbatim>\<open>clientSecret\<close>, \<^verbatim>\<open>code\<close>, \<^verbatim>\<open>codeVerifier\<close> and
  \<^verbatim>\<open>redirectUri\<close> are the entries of a map under the names of the request fields they
  are read from, undefined when absent. The fields of a form body are strings, those of
  a JSON body are what \<^verbatim>\<open>JSON.parse\<close> made. \<open>None\<close> is a thrown exception.
\<close>

definition read_token_params :: "lib \<Rightarrow> token_request \<Rightarrow> (string \<rightharpoonup> jsval) option" where
  "read_token_params L req =
     (let contentType = (case content_type req of None \<Rightarrow> [] | Some c \<Rightarrow> c);
          parsed =
            (if str_includes contentType ''application/x-www-form-urlencoded''
             then (case parseFormUrlEncoded (js_decodeURIComponent L) (body req) of
                     None \<Rightarrow> None
                   | Some params \<Rightarrow> Some (\<lambda>k. map_option JString (params k)))
             else if str_includes contentType ''application/json''
             then js_JSON_parse L (body req)
             else Some Map.empty)
      in case parsed of
           None \<Rightarrow> None
         | Some p \<Rightarrow>
             (case authorization req of
                None \<Rightarrow> Some p
              | Some authHeader \<Rightarrow>
                  if truthy authHeader \<and> startsWith authHeader ''Basic '' then
                    (case parseBasicAuth (buffer_base64_decode L) authHeader of
                       None \<Rightarrow> Some p
                     | Some (bid, bsecret) \<Rightarrow>
                         Some (p(''client_id'' := or_else_val (p ''client_id'') bid,
                                 ''client_secret'' := or_else_val (p ''client_secret'') bsecret)))
                  else Some p))"

subsection \<open>POST /oauth/token\<close>

definition token_success :: "int \<Rightarrow> string \<Rightarrow> oauth_state \<Rightarrow> oauth_state \<times> http_response" where
  "token_success now rnd st =
     (let (st', tokenResponse) = issueToken now rnd st in (st', Json 200 (TokenBody tokenResponse)))"

definition server_error :: http_response where
  "server_error = Json 500 (OAuthError ''server_error'' (Some ''Internal server error''))"

text \<open>
  The handler. After the fields are read it logs \<^verbatim>\<open>grantType\<close> and \<^verbatim>\<open>clientId\<close> in a
  template literal, inside the \<^verbatim>\<open>try\<close> block; every exception in the block is
  answered by the \<^verbatim>\<open>catch\<close> with 500, with the state as it is at the throw.
\<close>

definition oauth_token ::
  "lib \<Rightarrow> config \<Rightarrow> int \<Rightarrow> string \<Rightarrow> oauth_state \<Rightarrow> token_request \<Rightarrow> oauth_state \<times> http_response" where
  "oauth_token L cfg now rnd st req =
     (if \<not> hasOAuth cfg then
        (st, Json 400 (OAuthError ''unsupported_grant_type''
                         (Some ''OAuth is not configured on this server'')))
      else
        (case read_token_params L req of
           None \<Rightarrow> (st, server_error)
         | Some p \<Rightarrow>
             if \<not> printable_val (p ''grant_type'') \<or> \<not> printable_val (p ''client_id'')
             then (st, server_error)
             else if p ''grant_type'' = Some (JString ''authorization_code'') then
               (case (p ''code'', p ''code_verifier'', p ''redirect_uri'', p ''client_id'') of
                  (Some code, Some codeVerifier, Some ruri, Some cid) \<Rightarrow>
                    if \<not> js_truthy code \<or> \<not> js_truthy codeVerifier \<or> \<not> js_truthy ruri
                       \<or> \<not> js_truthy cid
                    then (st, Json 400 (OAuthError ''invalid_request''
                            (Some ''Missing code, code_verifier, redirect_uri, or client_id'')))
                    else
                      (case validateAuthorizationCode_js (crypto_sha256 L) now st
                              code cid ruri codeVerifier of
                         (st', None) \<Rightarrow> (st', server_error)
                       | (st', Some v) \<Rightarrow>
                           if \<not> valid v
                           then (st', Json 400 (OAuthError ''invalid_grant'' (error v)))
                           else token_success now rnd st')
                | _ \<Rightarrow> (st, Json 400 (OAuthError ''invalid_request''
                            (Some ''Missing code, code_verifier, redirect_uri, or client_id''))))
             else if p ''grant_type'' = Some (JString ''client_credentials'') then
               (case (p ''client_id'', p ''client_secret'') of
                  (Some cid, Some csecret) \<Rightarrow>
                    if \<not> js_truthy cid \<or> \<not> js_truthy csecret
                    then (st, Json 400 (OAuthError ''invalid_request''
                            (Some ''Missing client_id or client_secret'')))
                    else if \<not> validateClientCredentials_js cid csecret cfg
                    then (st, Json 401 (OAuthError ''invalid_client''
                            (Some ''Invalid client credentials'')))
                    else token_success now rnd st
                | _ \<Rightarrow> (st, Json 400 (OAuthError ''invalid_request''
                            (Some ''Missing client_id or client_secret''))))
             else (st, Json 400 (OAuthError ''unsupported_grant_type''
                     (Some ''Supported grant types: authorization_code, client_credentials'')))))"

subsection \<open>GET /authorize\<close>

text \<open>
  The query is the map of \<^verbatim>\<open>searchParams.get\<close>. The code is created before
  \<^verbatim>\<open>new URL(redirectUri)\<close> is evaluated. That call sits in the asynchronous request
  listener outside any \<^verbatim>\<open>try\<close>, and the program installs no handler for unhandled
  rejections: when it throws, the process exits, and with it both maps. That outcome is
  \<open>None\<close>; otherwise the result is the new state and the response.
\<close>

definition authorize ::
  "lib \<Rightarrow> config \<Rightarrow> int \<Rightarrow> string \<Rightarrow> oauth_state \<Rightarrow> (string \<rightharpoonup> string)
     \<Rightarrow> (oauth_state \<times> http_response) option" where
  "authorize L cfg now rnd st query =
     (if \<not> hasOAuth cfg then Some (st, Json 400 (OAuthError ''OAuth not configured'' None))
      else
        (let responseType = query ''response_type'';
             codeChallengeMethod =
               (case or_else (query ''code_challenge_method'') ''plain'' of
                  None \<Rightarrow> ''plain'' | Some m \<Rightarrow> m);
             state = query ''state''
         in if responseType \<noteq> Some ''code'' then
              Some (st, Json 400 (OAuthError ''unsupported_response_type''
                                    (Some ''Only code response type is supported'')))
            else
              (case query ''client_id'' of
                 None \<Rightarrow> Some (st, Json 400 (OAuthError ''invalid_request''
                                            (Some ''client_id is required'')))
               | Some cid \<Rightarrow>
                   if \<not> truthy cid then
                     Some (st, Json 400 (OAuthError ''invalid_request''
                                           (Some ''client_id is required'')))
                   else
                     (case query ''redirect_uri'' of
                        None \<Rightarrow> Some (st, Json 400 (OAuthError ''invalid_request''
                                                   (Some ''redirect_uri is required'')))
                      | Some ruri \<Rightarrow>
                          if \<not> truthy ruri then
                            Some (st, Json 400 (OAuthError ''invalid_request''
                                                  (Some ''redirect_uri is required'')))
                          else
                            (case query ''code_challenge'' of
                               None \<Rightarrow> Some (st, Json 400 (OAuthError ''invalid_request''
                                                (Some ''code_challenge is required (PKCE)'')))
                             | Some challenge \<Rightarrow>
                                 if \<not> truthy challenge then
                                   Some (st, Json 400 (OAuthError ''invalid_request''
                                                (Some ''code_challenge is required (PKCE)'')))
                                 else
                                   (let (st', authCode) =
                                          createAuthorizationCode now rnd st cid ruri challenge
                                            codeChallengeMethod
                                    in if \<not> url_accepts L ruri then None
                                       else Some (st', Redirect ruri
                                               ((''code'', authCode) #
                                                (case state of
                                                   None \<Rightarrow> []
                                                 | Some s \<Rightarrow>
                                                     if truthy s then [(''state'', s)] else [])))))))))"

subsection \<open>The bearer check of /mcp\<close>

definition mcp_authenticated ::
  "int \<Rightarrow> oauth_state \<Rightarrow> string option \<Rightarrow> config \<Rightarrow> oauth_state \<times> bool" where
  "mcp_authenticated now st authHeader cfg =
     (case authHeader of
        None \<Rightarrow> (st, False)
      | Some h \<Rightarrow>
          if truthy h \<and> startsWith h ''Bearer '' then validateAccessToken now st (drop 7 h) cfg
          else (st, False))"

section \<open>Worked inputs\<close>

text \<open>
  A configuration with both an API key and an OAuth client, one with the API key only,
  and library functions for the worked examples: the digest function is SHA-256 on the
  verifier \<^verbatim>\<open>abc123\<close> (its 32 digest bytes are written out) and zero elsewhere;
  \<^verbatim>\<open>decodeURIComponent\<close> is the identity on strings without a percent sign and
  throws on the others (the only one used is a malformed escape); the base64 decoding
  is right on the one header value used; \<^verbatim>\<open>JSON.parse\<close> is right on the one JSON body
  used, whose verifier is the number 123, and throws elsewhere.
\<close>

definition example_config :: config where
  "example_config =
     \<lparr>capabilityLevel = 2, apiKey = ''secret'', oauthClientId = Some ''homelab'',
      oauthClientSecret = Some ''hunter2''\<rparr>"

definition api_key_only_config :: config where
  "api_key_only_config =
     \<lparr>capabilityLevel = 2, apiKey = ''secret'', oauthClientId = None, oauthClientSecret = None\<rparr>"

definition example_sha256 :: "string \<Rightarrow> 8 word list" where
  "example_sha256 v =
     (if v = ''abc123''
      then [0x6c, 0xa1, 0x3d, 0x52, 0xca, 0x70, 0xc8, 0x83, 0xe0, 0xf0, 0xbb, 0x10, 0x1e, 0x42, 0x5a,
            0x89, 0xe8, 0x62, 0x4d, 0xe5, 0x1d, 0xb2, 0xd2, 0x39, 0x25, 0x93, 0xaf, 0x6a, 0x84, 0x11,
            0x80, 0x90]
      else replicate 32 0)"

definition example_decode :: "string \<Rightarrow> string option" where
  "example_decode s = (if CHR ''%'' \<in> set s then None else Some s)"

definition example_base64_decode :: "string \<Rightarrow> string" where
  "example_base64_decode s = (if s = ''aG9tZWxhYjpodW50ZXIy'' then ''homelab:hunter2'' else [])"

definition numeric_verifier_body :: string where
  \<open>numeric_verifier_body =
     ''{"grant_type":"authorization_code","code":"c0de","code_verifier":123,"redirect_uri":"https://app/cb","client_id":"intruder"}''\<close>

definition example_JSON_parse :: "string \<Rightarrow> (string \<rightharpoonup> jsval) option" where
  "example_JSON_parse s =
     (if s = numeric_verifier_body
      then Some [''grant_type'' \<mapsto> JString ''authorization_code'', ''code'' \<mapsto> JString ''c0de'',
                 ''code_verifier'' \<mapsto> JOther True True None,
                 ''redirect_uri'' \<mapsto> JString ''https://app/cb'',
                 ''client_id'' \<mapsto> JString ''intruder'']
      else None)"

definition example_lib :: lib where
  "example_lib =
     \<lparr>crypto_sha256 = example_sha256,
      js_decodeURIComponent = example_decode,
      js_JSON_parse = example_JSON_parse,
      buffer_base64_decode = example_base64_decode,
      url_accepts = (\<lambda>s. startsWith s ''https://'')\<rparr>"

definition empty_state :: oauth_state where
  "empty_state = \<lparr>activeTokens = [], authorizationCodes = []\<rparr>"

text \<open>
  Handlers for the forty tools: one fails with a message, one throws a value that is no
  \<^verbatim>\<open>Error\<close>, the others return their own name. In the second assignment every
  handler fails with an \<^verbatim>\<open>Error\<close> whose message is empty, as the \<^verbatim>\<open>AggregateError\<close>
  of a refused connection is.
\<close>

definition example_handlers :: "string \<Rightarrow> (string \<rightharpoonup> string) \<Rightarrow> config \<Rightarrow> thrown + string" where
  "example_handlers nm args cfg =
     (if nm = ''truenas_status'' then Inl (JsError ''connect ECONNREFUSED'')
      else if nm = ''opnsense_status'' then Inl NonError
      else Inr nm)"

definition refused_connection_handlers ::
  "string \<Rightarrow> (string \<rightharpoonup> string) \<Rightarrow> config \<Rightarrow> thrown + string" where
  "refused_connection_handlers nm args cfg = Inl (JsError [])"

definition example_stringify :: "string \<Rightarrow> thrown + string" where
  "example_stringify r =
     (if r = ''proxmox_status'' then Inl (JsError ''Converting circular structure to JSON'')
      else Inr r)"

text \<open>
  Requests to the endpoints. The authorization request and the first token request name
  a client id that is not the configured one.
\<close>

definition example_authorize_query :: "string \<rightharpoonup> string" where
  "example_authorize_query =
     [''response_type'' \<mapsto> ''code'', ''client_id'' \<mapsto> ''intruder'',
      ''redirect_uri'' \<mapsto> ''https://app/cb'',
      ''code_challenge'' \<mapsto> ''bKE9UspwyIPg8LsQHkJaiehiTeUdstI5JZOvaoQRgJA'',
      ''code_challenge_method'' \<mapsto> ''S256'', ''state'' \<mapsto> ''xyz'']"

definition form_request :: "string \<Rightarrow> token_request" where
  "form_request b =
     \<lparr>content_type = Some ''application/x-www-form-urlencoded'', body = b, authorization = None\<rparr>"

definition code_request :: token_request where
  "code_request =
     form_request ''grant_type=authorization_code&code=c0de&code_verifier=abc123&redirect_uri=https://app/cb&client_id=intruder''"

definition bare_code_request :: token_request where
  "bare_code_request = form_request ''grant_type=authorization_code''"

definition credentials_request :: token_request where
  "credentials_request =
     form_request ''grant_type=client_credentials&client_id=homelab&client_secret=hunter2''"

definition wrong_secret_request :: token_request where
  "wrong_secret_request =
     form_request ''grant_type=client_credentials&client_id=homelab&client_secret=hunter3''"

definition no_secret_request :: token_request where
  "no_secret_request = form_request ''grant_type=client_credentials&client_id=homelab''"

definition malformed_request :: token_request where
  "malformed_request = form_request ''grant_type=authorization_code&code=%zz''"

definition password_request :: token_request where
  "password_request = form_request ''grant_type=password&username=u&password=p''"

text \<open>
  A client-credentials request whose body has the grant type only and whose client id
  and secret come in an HTTP Basic header; a JSON request; an authorization request
  whose redirect URI is no URL.
\<close>

definition basic_request :: token_request where
  "basic_request =
     \<lparr>content_type = Some ''application/x-www-form-urlencoded'',
      body = ''grant_type=client_credentials'',
      authorization = Some ''Basic aG9tZWxhYjpodW50ZXIy''\<rparr>"

definition numeric_verifier_request :: token_request where
  "numeric_verifier_request =
     \<lparr>content_type = Some ''application/json'', body = numeric_verifier_body,
      authorization = None\<rparr>"

definition bad_redirect_query :: "string \<rightharpoonup> string" where
  "bad_redirect_query = example_authorize_query(''redirect_uri'' \<mapsto> ''not-a-url'')"

text \<open>The six request fields, and whether those that are present are strings.\<close>

definition token_fields :: "string list" where
  "token_fields =
     [''grant_type'', ''client_id'', ''client_secret'', ''code'', ''code_verifier'',
      ''redirect_uri'']"

definition string_fields :: "(string \<rightharpoonup> jsval) \<Rightarrow> bool" where
  "string_fields p =
     list_all (\<lambda>k. case p k of Some (JOther t pr b) \<Rightarrow> False | _ \<Rightarrow> True) token_fields"

text \<open>The grant type a token request asks for, as the endpoint reads it.\<close>

definition requested_grant :: "lib \<Rightarrow> token_request \<Rightarrow> jsval option" where
  "requested_grant L req =
     (case read_token_params L req of None \<Rightarrow> None | Some p \<Rightarrow> p ''grant_type'')"

text \<open>A state with an expired and an unexpired entry in each map, at clock reading 100.\<close>

definition two_of_each :: oauth_state where
  "two_of_each =
     \<lparr>activeTokens = [(''old'', \<lparr>tokenExpiresAt = 99\<rparr>), (''new'', \<lparr>tokenExpiresAt = 100\<rparr>)],
      authorizationCodes =
        [(''fresh'', \<lparr>codeChallenge = ''abc123'', codeChallengeMethod = ''plain'',
                      clientId = ''client'', redirectUri = ''https://app/cb'', expiresAt = 100\<rparr>),
         (''stale'', \<lparr>codeChallenge = ''abc123'', codeChallengeMethod = ''plain'',
                      clientId = ''client'', redirectUri = ''https://app/cb'', expiresAt = 0\<rparr>)]\<rparr>"

section \<open>Properties of the OAuth stores\<close>

subsection \<open>Auxiliary facts\<close>

lemma fold_delete_filter:
  "fold (\<lambda>(k, d) acc. if P d then AList.delete k acc else acc) xs m
     = filter (\<lambda>(k, d). \<not> (\<exists>d'. (k, d') \<in> set xs \<and> P d')) m"
proof (induction xs arbitrary: m)
  case Nil
  then show ?case by simp
next
  case (Cons x xs)
  obtain k d where x: "x = (k, d)" by (cases x)
  show ?case
  proof (cases "P d")
    case True
    then show ?thesis
      unfolding x by (auto simp: Cons.IH AList.delete_eq intro!: filter_cong)
  next
    case False
    then show ?thesis
      unfolding x by (auto simp: Cons.IH intro!: filter_cong)
  qed
qed

lemma sweep_filter:
  assumes "distinct (map fst m)"
  shows "fold (\<lambda>(k, d) acc. if P d then AList.delete k acc else acc) m m
           = filter (\<lambda>(k, d). \<not> P d) m"
proof -
  have "(\<exists>d'. (k, d') \<in> set m \<and> P d') = P d" if "(k, d) \<in> set m" for k d
    using that assms by (auto dest: eq_key_imp_eq_value)
  then show ?thesis
    unfolding fold_delete_filter by (auto intro!: filter_cong)
qed

lemma sweep_tokens_filter:
  "distinct (map fst m) \<Longrightarrow>
   sweep_tokens now m = filter (\<lambda>(token, data). \<not> tokenExpiresAt data < now) m"
  unfolding sweep_tokens_def by (rule sweep_filter [where P = "\<lambda>d. tokenExpiresAt d < now"])

lemma sweep_codes_filter:
  "distinct (map fst m) \<Longrightarrow>
   sweep_codes now m = filter (\<lambda>(code, data). \<not> expiresAt data < now) m"
  unfolding sweep_codes_def by (rule sweep_filter [where P = "\<lambda>d. expiresAt d < now"])

text \<open>The keys of both maps stay distinct under every operation of the module.\<close>

lemma distinct_keys_empty: "distinct_keys empty_state"
  by (simp add: distinct_keys_def empty_state_def)

lemma distinct_keys_issueToken:
  "distinct_keys st \<Longrightarrow> distinct_keys (fst (issueToken now rnd st))"
  by (simp add: distinct_keys_def issueToken_def Let_def distinct_update)

lemma distinct_keys_createAuthorizationCode:
  "distinct_keys st \<Longrightarrow> distinct_keys (fst (createAuthorizationCode now rnd st cid ruri ch m))"
  by (simp add: distinct_keys_def createAuthorizationCode_def Let_def distinct_update)

lemma distinct_keys_validateAccessToken:
  "distinct_keys st \<Longrightarrow> distinct_keys (fst (validateAccessToken now st token cfg))"
  by (simp add: distinct_keys_def validateAccessToken_def distinct_delete split: option.split)

lemma distinct_keys_reaper: "distinct_keys st \<Longrightarrow> distinct_keys (reaper now st)"
  by (simp add: distinct_keys_def reaper_def sweep_tokens_filter sweep_codes_filter distinct_map_filter)

lemma validateAuthorizationCode_store:
  "fst (validateAuthorizationCode sha256 now st code cid ruri ver)
     = st\<lparr>authorizationCodes := AList.delete code (authorizationCodes st)\<rparr>"
proof (cases "map_of (authorizationCodes st) code")
  case None
  then have "code \<notin> fst ` set (authorizationCodes st)"
    by (simp add: map_of_eq_None_iff)
  then have "AList.delete code (authorizationCodes st) = authorizationCodes st"
    by simp
  with None show ?thesis
    by (simp add: validateAuthorizationCode_def)
next
  case (Some cd)
  then show ?thesis
    by (simp add: validateAuthorizationCode_def Let_def)
qed

lemma distinct_keys_validateAuthorizationCode:
  "distinct_keys st \<Longrightarrow>
   distinct_keys (fst (validateAuthorizationCode sha256 now st code cid ruri ver))"
  by (simp add: validateAuthorizationCode_store distinct_keys_def distinct_delete)

lemma validateAuthorizationCode_absent:
  "map_of (authorizationCodes st) code = None \<Longrightarrow>
   snd (validateAuthorizationCode sha256 now st code cid ruri ver)
     = \<lparr>valid = False, error = Some ''Invalid authorization code''\<rparr>"
  by (simp add: validateAuthorizationCode_def)

lemma validateAuthorizationCode_present:
  "map_of (authorizationCodes st) code = Some cd \<Longrightarrow>
   snd (validateAuthorizationCode sha256 now st code cid ruri ver)
     = (if expiresAt cd < now then \<lparr>valid = False, error = Some ''Authorization code expired''\<rparr>
        else if clientId cd \<noteq> cid then \<lparr>valid = False, error = Some ''Client ID mismatch''\<rparr>
        else if redirectUri cd \<noteq> ruri then \<lparr>valid = False, error = Some ''Redirect URI mismatch''\<rparr>
        else if \<not> validatePKCE sha256 ver (codeChallenge cd) (codeChallengeMethod cd)
        then \<lparr>valid = False, error = Some ''Invalid code verifier''\<rparr>
        else \<lparr>valid = True, error = None\<rparr>)"
  by (simp add: validateAuthorizationCode_def Let_def)

lemma createAuthorizationCode_code:
  "snd (createAuthorizationCode now rnd st cid ruri ch m) = rnd"
  by (simp add: createAuthorizationCode_def Let_def)

lemma createAuthorizationCode_lookup:
  "map_of (authorizationCodes (fst (createAuthorizationCode now rnd st cid ruri ch m))) rnd
     = Some \<lparr>codeChallenge = ch, codeChallengeMethod = m, clientId = cid, redirectUri = ruri,
             expiresAt = now + 600000\<rparr>"
  by (simp add: createAuthorizationCode_def Let_def AUTH_CODE_EXPIRATION_def update_conv')

lemma issueToken_token: "access_token (snd (issueToken now rnd st)) = rnd"
  by (simp add: issueToken_def Let_def)

lemma issueToken_lookup:
  "map_of (activeTokens (fst (issueToken now rnd st))) rnd = Some \<lparr>tokenExpiresAt = now + 3600000\<rparr>"
  by (simp add: issueToken_def Let_def TOKEN_EXPIRATION_def update_conv')

lemma validateAccessToken_result:
  "snd (validateAccessToken now st token cfg)
     = ((apiKey cfg \<noteq> [] \<and> token = apiKey cfg)
        \<or> (\<exists>d. map_of (activeTokens st) token = Some d \<and> now \<le> tokenExpiresAt d))"
  by (auto simp: validateAccessToken_def truthy_def split: option.splits)

lemma example_digest:
  "base64url (example_sha256 ''abc123'') = ''bKE9UspwyIPg8LsQHkJaiehiTeUdstI5JZOvaoQRgJA''"
  by (simp add: example_sha256_def base64url_def b64url_char_def b64url_alphabet_def)

text \<open>The encoding \<open>base64url\<close>: its alphabet, its length, and that it is injective.\<close>

lemma length_b64url_alphabet: "length b64url_alphabet = 64"
  by (simp add: b64url_alphabet_def)

lemma b64url_alphabet_url_safe:
  "CHR ''='' \<notin> set b64url_alphabet" "CHR ''+'' \<notin> set b64url_alphabet"
  "CHR ''/'' \<notin> set b64url_alphabet"
  by (simp_all add: b64url_alphabet_def)

lemma b64url_char_in_alphabet: "b64url_char n \<in> set b64url_alphabet"
  by (simp add: b64url_char_def length_b64url_alphabet)

lemma set_base64url_nat: "set (base64url_nat xs) \<subseteq> set b64url_alphabet"
  by (induction xs rule: base64url_nat.induct) (simp_all add: b64url_char_in_alphabet)

lemma length_base64url_nat: "length (base64url_nat xs) = (4 * length xs + 2) div 3"
  by (induction xs rule: base64url_nat.induct) simp_all

lemma distinct_b64url_alphabet: "distinct b64url_alphabet"
  by (simp add: b64url_alphabet_def)

lemma b64url_char_inj:
  assumes "i < 64" "j < 64" "b64url_char i = b64url_char j"
  shows "i = j"
  using assms distinct_b64url_alphabet
  by (simp add: b64url_char_def nth_eq_iff_index_eq length_b64url_alphabet)

lemma digits_unique:
  fixes x y u v k :: nat
  assumes "u < k" "v < k" "x * k + u = y * k + v"
  shows "x = y \<and> u = v"
proof -
  have "(x * k + u) div k = x" "(y * k + v) div k = y"
    using assms(1,2) by simp_all
  with assms(3) have "x = y" by simp
  with assms(3) show ?thesis by simp
qed

lemma sextets_inj:
  fixes a a' b b' c c' :: nat
  assumes "b < 256" "b' < 256" "c < 256" "c' < 256"
    and s1: "a div 4 = a' div 4"
    and s2: "(a mod 4) * 16 + b div 16 = (a' mod 4) * 16 + b' div 16"
    and s3: "(b mod 16) * 4 + c div 64 = (b' mod 16) * 4 + c' div 64"
    and s4: "c mod 64 = c' mod 64"
  shows "a = a' \<and> b = b' \<and> c = c'"
proof -
  have "b div 16 < 16" "b' div 16 < 16" "c div 64 < 4" "c' div 64 < 4"
    using assms(1-4) by simp_all
  with s2 s3 have "a mod 4 = a' mod 4" "b div 16 = b' div 16"
      "b mod 16 = b' mod 16" "c div 64 = c' div 64"
    using digits_unique [of "b div 16" 16 "b' div 16" "a mod 4" "a' mod 4"]
          digits_unique [of "c div 64" 4 "c' div 64" "b mod 16" "b' mod 16"]
    by simp_all
  with s1 s4 show ?thesis
    by (metis div_mult_mod_eq)
qed

lemma encoded_length_inj:
  fixes m n :: nat
  assumes "(4 * m + 2) div 3 = (4 * n + 2) div 3"
  shows "m = n"
  using assms by arith

lemma base64url_nat_same_length:
  assumes "base64url_nat xs = base64url_nat ys"
  shows "length xs = length ys"
proof -
  from assms have "length (base64url_nat xs) = length (base64url_nat ys)"
    by simp
  then show ?thesis
    unfolding length_base64url_nat by (rule encoded_length_inj)
qed

lemma base64url_nat_inj:
  assumes "\<forall>x \<in> set xs. x < 256" "\<forall>y \<in> set ys. y < 256"
    and "base64url_nat xs = base64url_nat ys"
  shows "xs = ys"
  using assms
proof (induction xs arbitrary: ys rule: base64url_nat.induct)
  case 1
  from base64url_nat_same_length [OF "1.prems"(3)] show ?case
    by simp
next
  case (2 a)
  from base64url_nat_same_length [OF "2.prems"(3)] have "length ys = 1"
    by simp
  then obtain a' where ys: "ys = [a']"
    by (cases ys) auto
  from "2.prems" have "a < 256" "a' < 256"
    by (simp_all add: ys)
  then have lt: "a div 4 < 64" "a' div 4 < 64" "(a mod 4) * 16 < 64" "(a' mod 4) * 16 < 64"
    by simp_all
  from "2.prems"(3) have chars: "b64url_char (a div 4) = b64url_char (a' div 4)"
      "b64url_char ((a mod 4) * 16) = b64url_char ((a' mod 4) * 16)"
    by (simp_all add: ys)
  have "a div 4 = a' div 4" "(a mod 4) * 16 = (a' mod 4) * 16"
    by (rule b64url_char_inj [OF lt(1,2) chars(1)], rule b64url_char_inj [OF lt(3,4) chars(2)])
  then have "a = a'"
    using sextets_inj [of 0 0 0 0 a a'] by simp
  then show ?case
    by (simp add: ys)
next
  case (3 a b)
  from base64url_nat_same_length [OF "3.prems"(3)] have "length ys = 2"
    by simp
  then obtain a' b' where ys: "ys = [a', b']"
    by (cases ys; cases "tl ys") auto
  from "3.prems" have bound: "a < 256" "a' < 256" "b < 256" "b' < 256"
    by (simp_all add: ys)
  then have lt: "a div 4 < 64" "a' div 4 < 64"
      "(a mod 4) * 16 + b div 16 < 64" "(a' mod 4) * 16 + b' div 16 < 64"
      "(b mod 16) * 4 < 64" "(b' mod 16) * 4 < 64"
    by simp_all
  from "3.prems"(3) have chars: "b64url_char (a div 4) = b64url_char (a' div 4)"
      "b64url_char ((a mod 4) * 16 + b div 16) = b64url_char ((a' mod 4) * 16 + b' div 16)"
      "b64url_char ((b mod 16) * 4) = b64url_char ((b' mod 16) * 4)"
    by (simp_all add: ys)
  have "a div 4 = a' div 4"
      "(a mod 4) * 16 + b div 16 = (a' mod 4) * 16 + b' div 16"
      "(b mod 16) * 4 = (b' mod 16) * 4"
    by (rule b64url_char_inj [OF lt(1,2) chars(1)], rule b64url_char_inj [OF lt(3,4) chars(2)],
        rule b64url_char_inj [OF lt(5,6) chars(3)])
  then have "a = a' \<and> b = b'"
    using sextets_inj [of b b' 0 0 a a'] bound by simp
  then show ?case
    by (simp add: ys)
next
  case (4 a b c rest)
  from base64url_nat_same_length [OF "4.prems"(3)] have "length ys = length (a # b # c # rest)"
    by simp
  then obtain a' b' c' rest' where ys: "ys = a' # b' # c' # rest'"
    by (cases ys; cases "tl ys"; cases "tl (tl ys)") auto
  from "4.prems" have bound: "a < 256" "a' < 256" "b < 256" "b' < 256" "c < 256" "c' < 256"
    and rest: "\<forall>x \<in> set rest. x < 256" "\<forall>y \<in> set rest'. y < 256"
    by (simp_all add: ys)
  from bound have lt: "a div 4 < 64" "a' div 4 < 64"
      "(a mod 4) * 16 + b div 16 < 64" "(a' mod 4) * 16 + b' div 16 < 64"
      "(b mod 16) * 4 + c div 64 < 64" "(b' mod 16) * 4 + c' div 64 < 64"
      "c mod 64 < 64" "c' mod 64 < 64"
    by simp_all
  from "4.prems"(3) have chars: "b64url_char (a div 4) = b64url_char (a' div 4)"
      "b64url_char ((a mod 4) * 16 + b div 16) = b64url_char ((a' mod 4) * 16 + b' div 16)"
      "b64url_char ((b mod 16) * 4 + c div 64) = b64url_char ((b' mod 16) * 4 + c' div 64)"
      "b64url_char (c mod 64) = b64url_char (c' mod 64)"
    and tail: "base64url_nat rest = base64url_nat rest'"
    by (simp_all add: ys)
  have "a div 4 = a' div 4"
      "(a mod 4) * 16 + b div 16 = (a' mod 4) * 16 + b' div 16"
      "(b mod 16) * 4 + c div 64 = (b' mod 16) * 4 + c' div 64"
      "c mod 64 = c' mod 64"
    by (rule b64url_char_inj [OF lt(1,2) chars(1)], rule b64url_char_inj [OF lt(3,4) chars(2)],
        rule b64url_char_inj [OF lt(5,6) chars(3)], rule b64url_char_inj [OF lt(7,8) chars(4)])
  then have "a = a' \<and> b = b' \<and> c = c'"
    using sextets_inj [of b b' c c' a a'] bound by simp
  moreover from "4.IH" [OF rest tail] have "rest = rest'" .
  ultimately show ?case
    by (simp add: ys)
qed

lemma base64url_inj: "base64url xs = base64url ys \<Longrightarrow> xs = ys"
proof -
  assume "base64url xs = base64url ys"
  moreover have "unat z < 256" for z :: "8 word"
    using unsigned_less [of z] by simp
  then have "\<forall>x \<in> set (map unat zs). x < 256" for zs :: "8 word list"
    by auto
  ultimately have "map unat xs = map unat ys"
    unfolding base64url_def by (intro base64url_nat_inj) simp_all
  then show "xs = ys"
    by (simp add: inj_map_eq_map)
qed

lemma set_base64url: "set (base64url bs) \<subseteq> set b64url_alphabet"
  by (simp add: base64url_def set_base64url_nat)

lemma length_base64url: "length (base64url bs) = (4 * length bs + 2) div 3"
  by (simp add: base64url_def length_base64url_nat)

lemma base64url_unpadded: "CHR ''='' \<notin> set (base64url bs)"
  using set_base64url [of bs] b64url_alphabet_url_safe(1) by blast

subsection \<open>Single use of authorization codes\<close>

text \<open>
  Claim C1. Whatever its arguments and whatever it returns, a call of
  \<open>validateAuthorizationCode\<close> leaves the store without the code it was called with:
  the code store afterwards is the old one with that code deleted, and nothing else
  changes. Hence a second call with the same code returns the failure
  \<^verbatim>\<open>Invalid authorization code\<close>, whatever the first call returned and whatever the
  other arguments of the second call are. A code made by \<open>createAuthorizationCode\<close> and
  redeemed before its expiry with the same client id and redirect URI and a verifier that
  passes the PKCE check is accepted by that first call.
\<close>

theorem authorization_code_single_use:
  "fst (validateAuthorizationCode digest t st code cid ruri ver)
     = st\<lparr>authorizationCodes := AList.delete code (authorizationCodes st)\<rparr>
   \<and> map_of (authorizationCodes (fst (validateAuthorizationCode digest t st code cid ruri ver))) code
       = None
   \<and> snd (validateAuthorizationCode digest t'
             (fst (validateAuthorizationCode digest t st code cid ruri ver)) code cid' ruri' ver')
       = \<lparr>valid = False, error = Some ''Invalid authorization code''\<rparr>
   \<and> (validatePKCE digest ver ch m \<and> t \<le> t0 + 600000 \<longrightarrow>
        snd (validateAuthorizationCode digest t
               (fst (createAuthorizationCode t0 rnd st0 cid ruri ch m))
               (snd (createAuthorizationCode t0 rnd st0 cid ruri ch m)) cid ruri ver)
          = \<lparr>valid = True, error = None\<rparr>)"
proof -
  let ?st1 = "fst (validateAuthorizationCode digest t st code cid ruri ver)"
  have a: "?st1 = st\<lparr>authorizationCodes := AList.delete code (authorizationCodes st)\<rparr>"
    by (rule validateAuthorizationCode_store)
  have b: "map_of (authorizationCodes ?st1) code = None"
    by (simp add: a delete_conv')
  have c: "snd (validateAuthorizationCode digest t' ?st1 code cid' ruri' ver')
             = \<lparr>valid = False, error = Some ''Invalid authorization code''\<rparr>"
    using b by (rule validateAuthorizationCode_absent)
  have d: "snd (validateAuthorizationCode digest t
                  (fst (createAuthorizationCode t0 rnd st0 cid ruri ch m))
                  (snd (createAuthorizationCode t0 rnd st0 cid ruri ch m)) cid ruri ver)
             = \<lparr>valid = True, error = None\<rparr>"
    if "validatePKCE digest ver ch m" "t \<le> t0 + 600000"
    using that
    by (simp add: createAuthorizationCode_code
                  validateAuthorizationCode_present [OF createAuthorizationCode_lookup])
  from a b c d show ?thesis by blast
qed

theorem authorization_code_single_use_witness:
  "validatePKCE example_sha256 ''abc123'' ''bKE9UspwyIPg8LsQHkJaiehiTeUdstI5JZOvaoQRgJA'' ''S256''
   \<and> (1000::int) \<le> 0 + 600000
   \<and> snd (validateAuthorizationCode example_sha256 1000
            (fst (createAuthorizationCode 0 ''c0de'' empty_state ''client'' ''https://app/cb''
                    ''bKE9UspwyIPg8LsQHkJaiehiTeUdstI5JZOvaoQRgJA'' ''S256''))
            (snd (createAuthorizationCode 0 ''c0de'' empty_state ''client'' ''https://app/cb''
                    ''bKE9UspwyIPg8LsQHkJaiehiTeUdstI5JZOvaoQRgJA'' ''S256''))
            ''client'' ''https://app/cb'' ''abc123'')
       = \<lparr>valid = True, error = None\<rparr>
   \<and> snd (validateAuthorizationCode example_sha256 1001
            (fst (validateAuthorizationCode example_sha256 1000
                    (fst (createAuthorizationCode 0 ''c0de'' empty_state ''client'' ''https://app/cb''
                            ''bKE9UspwyIPg8LsQHkJaiehiTeUdstI5JZOvaoQRgJA'' ''S256''))
                    ''c0de'' ''client'' ''https://app/cb'' ''abc123''))
            ''c0de'' ''client'' ''https://app/cb'' ''abc123'')
       = \<lparr>valid = False, error = Some ''Invalid authorization code''\<rparr>"
proof -
  have pkce: "validatePKCE example_sha256 ''abc123''
                ''bKE9UspwyIPg8LsQHkJaiehiTeUdstI5JZOvaoQRgJA'' ''S256''"
    by (simp add: validatePKCE_def example_digest)
  have in_time: "(1000::int) \<le> 0 + 600000"
    by simp
  from pkce in_time
    authorization_code_single_use
      [where digest = example_sha256 and t = 1000 and t' = 1001 and ?t0.0 = 0
         and st = "fst (createAuthorizationCode 0 ''c0de'' empty_state ''client'' ''https://app/cb''
                          ''bKE9UspwyIPg8LsQHkJaiehiTeUdstI5JZOvaoQRgJA'' ''S256'')"
         and ?st0.0 = empty_state
         and code = "''c0de''" and rnd = "''c0de''" and cid = "''client''" and cid' = "''client''"
         and ruri = "''https://app/cb''" and ruri' = "''https://app/cb''"
         and ver = "''abc123''" and ver' = "''abc123''"
         and ch = "''bKE9UspwyIPg8LsQHkJaiehiTeUdstI5JZOvaoQRgJA''" and m = "''S256''"]
  show ?thesis
    by blast
qed

subsection \<open>PKCE verification\<close>

text \<open>
  Claim C4. With method \<^verbatim>\<open>S256\<close> the check succeeds exactly when the unpadded URL-safe
  base64 text of the SHA-256 digest of the verifier is the challenge; with method
  \<^verbatim>\<open>plain\<close> exactly when the verifier is the challenge; with any other method it
  fails on all inputs. The encoding is injective, so against the challenge made from one
  verifier another verifier passes exactly when it has the same digest; and a challenge
  that is accepted with \<^verbatim>\<open>S256\<close> has no padding character, lies in the URL-safe
  alphabet and has the length of the unpadded encoding.
\<close>

theorem validatePKCE_methods:
  "validatePKCE digest ver ch ''S256'' = (base64url (digest ver) = ch)
   \<and> validatePKCE digest ver ch ''plain'' = (ver = ch)
   \<and> (m \<noteq> ''S256'' \<and> m \<noteq> ''plain'' \<longrightarrow> validatePKCE digest ver ch m = False)
   \<and> validatePKCE digest ver (base64url (digest ver0)) ''S256'' = (digest ver = digest ver0)
   \<and> (validatePKCE digest ver ch ''S256'' \<longrightarrow>
        CHR ''='' \<notin> set ch \<and> set ch \<subseteq> set b64url_alphabet
        \<and> length ch = (4 * length (digest ver) + 2) div 3)"
proof -
  have s256: "validatePKCE digest v c ''S256'' = (base64url (digest v) = c)" for v c
    by (simp add: validatePKCE_def)
  have plain: "validatePKCE digest ver ch ''plain'' = (ver = ch)"
    by (simp add: validatePKCE_def)
  have other: "m \<noteq> ''S256'' \<and> m \<noteq> ''plain'' \<longrightarrow> validatePKCE digest ver ch m = False"
    by (simp add: validatePKCE_def)
  have same_digest: "validatePKCE digest ver (base64url (digest ver0)) ''S256''
                       = (digest ver = digest ver0)"
    unfolding s256 by (auto dest: base64url_inj)
  have shape: "validatePKCE digest ver ch ''S256'' \<longrightarrow>
        CHR ''='' \<notin> set ch \<and> set ch \<subseteq> set b64url_alphabet
        \<and> length ch = (4 * length (digest ver) + 2) div 3"
    unfolding s256 using base64url_unpadded set_base64url length_base64url by blast
  from s256 plain other same_digest shape show ?thesis
    by blast
qed

theorem validatePKCE_methods_witness:
  "''S512'' \<noteq> ''S256'' \<and> ''S512'' \<noteq> ''plain''
   \<and> validatePKCE example_sha256 ''abc123'' ''bKE9UspwyIPg8LsQHkJaiehiTeUdstI5JZOvaoQRgJA'' ''S256''
   \<and> length ''bKE9UspwyIPg8LsQHkJaiehiTeUdstI5JZOvaoQRgJA''
       = (4 * length (example_sha256 ''abc123'') + 2) div 3
   \<and> \<not> validatePKCE example_sha256 ''abc123'' ''bKE9UspwyIPg8LsQHkJaiehiTeUdstI5JZOvaoQRgJA='' ''S256''
   \<and> \<not> validatePKCE example_sha256 ''abc124'' (base64url (example_sha256 ''abc123'')) ''S256''
   \<and> \<not> validatePKCE example_sha256 ''abc123'' ''abc124'' ''plain''
   \<and> validatePKCE example_sha256 ''abc123'' ''abc123'' ''plain''
   \<and> \<not> validatePKCE example_sha256 ''abc123'' ''abc123'' ''S512''"
proof -
  let ?ch = "''bKE9UspwyIPg8LsQHkJaiehiTeUdstI5JZOvaoQRgJA''"
  have unknown: "''S512'' \<noteq> ''S256'' \<and> ''S512'' \<noteq> ''plain''"
    by simp
  have padded: "(base64url (example_sha256 ''abc123'') = ?ch @ ''='') = False"
    by (simp add: example_digest)
  have "hd (example_sha256 ''abc124'') = 0" "hd (example_sha256 ''abc123'') = 0x6c"
    by (simp_all add: example_sha256_def hd_replicate)
  then have digests: "(example_sha256 ''abc124'' = example_sha256 ''abc123'') = False"
    by auto
  have strings: "(''abc123'' = ''abc124'') = False" "(''abc123'' = ''abc123'') = True"
    by simp_all
  note pk = validatePKCE_methods [where digest = example_sha256 and m = "''S512''"]
  have r1: "validatePKCE example_sha256 ''abc123'' ?ch ''S256''"
    using pk [where ver = "''abc123''" and ch = ?ch and ?ver0.0 = "''abc123''"] example_digest
    by blast
  have r2: "length ?ch = (4 * length (example_sha256 ''abc123'') + 2) div 3"
    using pk [where ver = "''abc123''" and ch = ?ch and ?ver0.0 = "''abc123''"] r1
    by blast
  have r3: "\<not> validatePKCE example_sha256 ''abc123'' (?ch @ ''='') ''S256''"
    using pk [where ver = "''abc123''" and ch = "?ch @ ''=''" and ?ver0.0 = "''abc123''"] padded
    by blast
  have r4: "\<not> validatePKCE example_sha256 ''abc124'' (base64url (example_sha256 ''abc123'')) ''S256''"
    using pk [where ver = "''abc124''" and ch = ?ch and ?ver0.0 = "''abc123''"] digests
    by blast
  have r5: "\<not> validatePKCE example_sha256 ''abc123'' ''abc124'' ''plain''"
    using pk [where ver = "''abc123''" and ch = "''abc124''" and ?ver0.0 = "''abc123''"] strings(1)
    by blast
  have r6: "validatePKCE example_sha256 ''abc123'' ''abc123'' ''plain''"
    using pk [where ver = "''abc123''" and ch = "''abc123''" and ?ver0.0 = "''abc123''"] strings(2)
    by blast
  have r7: "\<not> validatePKCE example_sha256 ''abc123'' ''abc123'' ''S512''"
    using pk [where ver = "''abc123''" and ch = "''abc123''" and ?ver0.0 = "''abc123''"] unknown
    by blast
  from unknown r1 r2 r3 r4 r5 r6 r7 show ?thesis
    by simp
qed

subsection \<open>Access-token validation\<close>

text \<open>
  Claim C5. \<open>validateAccessToken\<close> returns true exactly when the token is the
  configured, non-empty API key, or the token store holds it with an expiry that has not
  passed. When the token is not accepted as the API key and the store holds it with an
  expiry that has passed, the call itself deletes the entry and returns false, whether
  or not the reaper has run. A call that returns true leaves the state as it was, so the
  expiry is not extended; a token issued at \<open>t0\<close> and no API key is valid exactly up to
  \<open>t0 + 3600000\<close> milliseconds.
\<close>

theorem validateAccessToken_spec:
  "snd (validateAccessToken now st token cfg)
     = ((apiKey cfg \<noteq> [] \<and> token = apiKey cfg)
        \<or> (\<exists>d. map_of (activeTokens st) token = Some d \<and> now \<le> tokenExpiresAt d))
   \<and> (\<not> (apiKey cfg \<noteq> [] \<and> token = apiKey cfg)
        \<and> map_of (activeTokens st) token = Some d \<and> tokenExpiresAt d < now \<longrightarrow>
        validateAccessToken now st token cfg
          = (st\<lparr>activeTokens := AList.delete token (activeTokens st)\<rparr>, False)
        \<and> map_of (activeTokens (fst (validateAccessToken now st token cfg))) token = None)
   \<and> (snd (validateAccessToken now st token cfg) \<longrightarrow>
        fst (validateAccessToken now st token cfg) = st)
   \<and> (\<not> (apiKey cfg \<noteq> [] \<and> rnd = apiKey cfg) \<longrightarrow>
        snd (validateAccessToken now (fst (issueToken t0 rnd st)) rnd cfg) = (now \<le> t0 + 3600000))"
proof (intro conjI)
  show "snd (validateAccessToken now st token cfg)
     = ((apiKey cfg \<noteq> [] \<and> token = apiKey cfg)
        \<or> (\<exists>d. map_of (activeTokens st) token = Some d \<and> now \<le> tokenExpiresAt d))"
    by (rule validateAccessToken_result)
  show "\<not> (apiKey cfg \<noteq> [] \<and> token = apiKey cfg)
        \<and> map_of (activeTokens st) token = Some d \<and> tokenExpiresAt d < now \<longrightarrow>
        validateAccessToken now st token cfg
          = (st\<lparr>activeTokens := AList.delete token (activeTokens st)\<rparr>, False)
        \<and> map_of (activeTokens (fst (validateAccessToken now st token cfg))) token = None"
    by (auto simp: validateAccessToken_def truthy_def delete_conv')
  show "snd (validateAccessToken now st token cfg) \<longrightarrow>
        fst (validateAccessToken now st token cfg) = st"
    by (auto simp: validateAccessToken_def split: option.splits)
  show "\<not> (apiKey cfg \<noteq> [] \<and> rnd = apiKey cfg) \<longrightarrow>
        snd (validateAccessToken now (fst (issueToken t0 rnd st)) rnd cfg) = (now \<le> t0 + 3600000)"
    by (simp add: validateAccessToken_result issueToken_lookup)
qed

theorem validateAccessToken_spec_witness:
  "\<not> (apiKey example_config \<noteq> [] \<and> ''t0ken'' = apiKey example_config)
   \<and> map_of (activeTokens (fst (issueToken 0 ''t0ken'' empty_state))) ''t0ken''
       = Some \<lparr>tokenExpiresAt = 3600000\<rparr>
   \<and> tokenExpiresAt \<lparr>tokenExpiresAt = 3600000\<rparr> < 3600001
   \<and> validateAccessToken 3600001 (fst (issueToken 0 ''t0ken'' empty_state)) ''t0ken'' example_config
       = ((fst (issueToken 0 ''t0ken'' empty_state))
            \<lparr>activeTokens := AList.delete ''t0ken'' (activeTokens (fst (issueToken 0 ''t0ken'' empty_state)))\<rparr>,
          False)
   \<and> snd (validateAccessToken 3600000 (fst (issueToken 0 ''t0ken'' empty_state)) ''t0ken'' example_config)
   \<and> fst (validateAccessToken 3600000 (fst (issueToken 0 ''t0ken'' empty_state)) ''t0ken'' example_config)
       = fst (issueToken 0 ''t0ken'' empty_state)
   \<and> snd (validateAccessToken 3600001 empty_state ''secret'' example_config)"
proof -
  have not_key: "\<not> (apiKey example_config \<noteq> [] \<and> ''t0ken'' = apiKey example_config)"
    by (simp add: example_config_def)
  have stored: "map_of (activeTokens (fst (issueToken 0 ''t0ken'' empty_state))) ''t0ken''
                  = Some \<lparr>tokenExpiresAt = 3600000\<rparr>"
    using issueToken_lookup [of 0 "''t0ken''" empty_state] by simp
  have late: "tokenExpiresAt \<lparr>tokenExpiresAt = 3600000\<rparr> < 3600001"
    by simp
  have in_time: "((3600000::int) \<le> 0 + 3600000) = True"
    by simp
  have is_key: "apiKey example_config \<noteq> [] \<and> ''secret'' = apiKey example_config"
    by (simp add: example_config_def)
  from not_key stored late in_time is_key
    validateAccessToken_spec
      [where now = 3600001 and st = "fst (issueToken 0 ''t0ken'' empty_state)" and token = "''t0ken''"
         and cfg = example_config and d = "\<lparr>tokenExpiresAt = 3600000\<rparr>" and rnd = "''t0ken''"
         and ?t0.0 = 0]
    validateAccessToken_spec
      [where now = 3600000 and st = empty_state and token = "''t0ken''"
         and cfg = example_config and d = "\<lparr>tokenExpiresAt = 3600000\<rparr>" and rnd = "''t0ken''"
         and ?t0.0 = 0]
    validateAccessToken_spec
      [where now = 3600000 and st = "fst (issueToken 0 ''t0ken'' empty_state)" and token = "''t0ken''"
         and cfg = example_config and d = "\<lparr>tokenExpiresAt = 3600000\<rparr>" and rnd = "''t0ken''"
         and ?t0.0 = 0]
    validateAccessToken_spec
      [where now = 3600001 and st = empty_state and token = "''secret''"
         and cfg = example_config and d = "\<lparr>tokenExpiresAt = 3600000\<rparr>" and rnd = "''t0ken''"
         and ?t0.0 = 0]
  show ?thesis
    by blast
qed

subsection \<open>The order of the redemption checks\<close>

text \<open>
  Claim C6. For a code that is in the store, \<open>validateAuthorizationCode\<close> checks, in
  this order, the expiry, the client id, the redirect URI and the PKCE verifier, and the
  first check that fails gives the reason: \<^verbatim>\<open>Authorization code expired\<close>,
  \<^verbatim>\<open>Client ID mismatch\<close>, \<^verbatim>\<open>Redirect URI mismatch\<close>, \<^verbatim>\<open>Invalid code verifier\<close>. When
  all four pass the result is success. In every case the code has been deleted. A code
  that is still in the store after its expiry (the store need not have been swept) fails
  with the expiry reason whatever the other arguments are; so does a code redeemed more
  than 600000 milliseconds after \<open>createAuthorizationCode\<close> made it.
\<close>

theorem validateAuthorizationCode_check_order:
  "map_of (authorizationCodes st) code = Some cd \<longrightarrow>
     (expiresAt cd < now \<longrightarrow>
        snd (validateAuthorizationCode digest now st code cid ruri ver)
          = \<lparr>valid = False, error = Some ''Authorization code expired''\<rparr>)
   \<and> (\<not> expiresAt cd < now \<and> clientId cd \<noteq> cid \<longrightarrow>
        snd (validateAuthorizationCode digest now st code cid ruri ver)
          = \<lparr>valid = False, error = Some ''Client ID mismatch''\<rparr>)
   \<and> (\<not> expiresAt cd < now \<and> clientId cd = cid \<and> redirectUri cd \<noteq> ruri \<longrightarrow>
        snd (validateAuthorizationCode digest now st code cid ruri ver)
          = \<lparr>valid = False, error = Some ''Redirect URI mismatch''\<rparr>)
   \<and> (\<not> expiresAt cd < now \<and> clientId cd = cid \<and> redirectUri cd = ruri
        \<and> \<not> validatePKCE digest ver (codeChallenge cd) (codeChallengeMethod cd) \<longrightarrow>
        snd (validateAuthorizationCode digest now st code cid ruri ver)
          = \<lparr>valid = False, error = Some ''Invalid code verifier''\<rparr>)
   \<and> (\<not> expiresAt cd < now \<and> clientId cd = cid \<and> redirectUri cd = ruri
        \<and> validatePKCE digest ver (codeChallenge cd) (codeChallengeMethod cd) \<longrightarrow>
        snd (validateAuthorizationCode digest now st code cid ruri ver)
          = \<lparr>valid = True, error = None\<rparr>)
   \<and> fst (validateAuthorizationCode digest now st code cid ruri ver)
        = st\<lparr>authorizationCodes := AList.delete code (authorizationCodes st)\<rparr>
   \<and> (t0 + 600000 < now \<longrightarrow>
        snd (validateAuthorizationCode digest now
               (fst (createAuthorizationCode t0 code st0 cid0 ruri0 ch m)) code cid ruri ver)
          = \<lparr>valid = False, error = Some ''Authorization code expired''\<rparr>)"
  by (simp add: validateAuthorizationCode_present validateAuthorizationCode_store
                validateAuthorizationCode_present [OF createAuthorizationCode_lookup])

theorem validateAuthorizationCode_check_order_witness:
  "map_of (authorizationCodes
             (fst (createAuthorizationCode 0 ''c0de'' empty_state ''client'' ''https://app/cb''
                     ''abc123'' ''plain''))) ''c0de''
     = Some \<lparr>codeChallenge = ''abc123'', codeChallengeMethod = ''plain'', clientId = ''client'',
             redirectUri = ''https://app/cb'', expiresAt = 600000\<rparr>
   \<and> snd (validateAuthorizationCode example_sha256 600001
            (fst (createAuthorizationCode 0 ''c0de'' empty_state ''client'' ''https://app/cb''
                    ''abc123'' ''plain''))
            ''c0de'' ''other'' ''https://evil/cb'' ''wrong'')
       = \<lparr>valid = False, error = Some ''Authorization code expired''\<rparr>
   \<and> snd (validateAuthorizationCode example_sha256 600000
            (fst (createAuthorizationCode 0 ''c0de'' empty_state ''client'' ''https://app/cb''
                    ''abc123'' ''plain''))
            ''c0de'' ''other'' ''https://evil/cb'' ''wrong'')
       = \<lparr>valid = False, error = Some ''Client ID mismatch''\<rparr>
   \<and> snd (validateAuthorizationCode example_sha256 600000
            (fst (createAuthorizationCode 0 ''c0de'' empty_state ''client'' ''https://app/cb''
                    ''abc123'' ''plain''))
            ''c0de'' ''client'' ''https://evil/cb'' ''wrong'')
       = \<lparr>valid = False, error = Some ''Redirect URI mismatch''\<rparr>
   \<and> snd (validateAuthorizationCode example_sha256 600000
            (fst (createAuthorizationCode 0 ''c0de'' empty_state ''client'' ''https://app/cb''
                    ''abc123'' ''plain''))
            ''c0de'' ''client'' ''https://app/cb'' ''wrong'')
       = \<lparr>valid = False, error = Some ''Invalid code verifier''\<rparr>
   \<and> snd (validateAuthorizationCode example_sha256 600000
            (fst (createAuthorizationCode 0 ''c0de'' empty_state ''client'' ''https://app/cb''
                    ''abc123'' ''plain''))
            ''c0de'' ''client'' ''https://app/cb'' ''abc123'')
       = \<lparr>valid = True, error = None\<rparr>"
proof -
  let ?st = "fst (createAuthorizationCode 0 ''c0de'' empty_state ''client'' ''https://app/cb''
                    ''abc123'' ''plain'')"
  let ?cd = "\<lparr>codeChallenge = ''abc123'', codeChallengeMethod = ''plain'', clientId = ''client'',
              redirectUri = ''https://app/cb'', expiresAt = 600000\<rparr>"
  have stored: "map_of (authorizationCodes ?st) ''c0de'' = Some ?cd"
    using createAuthorizationCode_lookup
            [of 0 "''c0de''" empty_state "''client''" "''https://app/cb''" "''abc123''" "''plain''"]
    by simp
  have late: "expiresAt ?cd < 600001" and in_time: "\<not> expiresAt ?cd < 600000"
    by simp_all
  have client: "clientId ?cd \<noteq> ''other''" "clientId ?cd = ''client''"
    by simp_all
  have redirect: "redirectUri ?cd \<noteq> ''https://evil/cb''" "redirectUri ?cd = ''https://app/cb''"
    by simp_all
  have pkce: "\<not> validatePKCE example_sha256 ''wrong'' (codeChallenge ?cd) (codeChallengeMethod ?cd)"
      "validatePKCE example_sha256 ''abc123'' (codeChallenge ?cd) (codeChallengeMethod ?cd)"
    by (simp_all add: validatePKCE_def)
  note order = validateAuthorizationCode_check_order
                 [where st = ?st and code = "''c0de''" and cd = ?cd and digest = example_sha256
                    and ?t0.0 = 0 and ?st0.0 = empty_state and ?cid0.0 = "''client''"
                    and ?ruri0.0 = "''https://app/cb''" and ch = "''abc123''" and m = "''plain''"]
  have r1: "snd (validateAuthorizationCode example_sha256 600001 ?st
                   ''c0de'' ''other'' ''https://evil/cb'' ''wrong'')
              = \<lparr>valid = False, error = Some ''Authorization code expired''\<rparr>"
    using order [where now = 600001 and cid = "''other''" and ruri = "''https://evil/cb''"
                   and ver = "''wrong''"] stored late
    by blast
  have r2: "snd (validateAuthorizationCode example_sha256 600000 ?st
                   ''c0de'' ''other'' ''https://evil/cb'' ''wrong'')
              = \<lparr>valid = False, error = Some ''Client ID mismatch''\<rparr>"
    using order [where now = 600000 and cid = "''other''" and ruri = "''https://evil/cb''"
                   and ver = "''wrong''"] stored in_time client(1)
    by blast
  have r3: "snd (validateAuthorizationCode example_sha256 600000 ?st
                   ''c0de'' ''client'' ''https://evil/cb'' ''wrong'')
              = \<lparr>valid = False, error = Some ''Redirect URI mismatch''\<rparr>"
    using order [where now = 600000 and cid = "''client''" and ruri = "''https://evil/cb''"
                   and ver = "''wrong''"] stored in_time client(2) redirect(1)
    by blast
  have r4: "snd (validateAuthorizationCode example_sha256 600000 ?st
                   ''c0de'' ''client'' ''https://app/cb'' ''wrong'')
              = \<lparr>valid = False, error = Some ''Invalid code verifier''\<rparr>"
    using order [where now = 600000 and cid = "''client''" and ruri = "''https://app/cb''"
                   and ver = "''wrong''"] stored in_time client(2) redirect(2) pkce(1)
    by blast
  have r5: "snd (validateAuthorizationCode example_sha256 600000 ?st
                   ''c0de'' ''client'' ''https://app/cb'' ''abc123'')
              = \<lparr>valid = True, error = None\<rparr>"
    using order [where now = 600000 and cid = "''client''" and ruri = "''https://app/cb''"
                   and ver = "''abc123''"] stored in_time client(2) redirect(2) pkce(2)
    by blast
  from stored r1 r2 r3 r4 r5 show ?thesis
    by (intro conjI)
qed

subsection \<open>The expiry reaper\<close>

text \<open>
  Claim C9. The reaper is scheduled with an interval of 60000 milliseconds. One run
  sweeps both maps: what is left of each is the entries whose expiry does not lie before
  the clock reading of the run, in their old order and with their old data, so that
  exactly the expired entries are deleted and none of the entries left is expired. The
  keys of each map are distinct, as they are in every state the module reaches.
\<close>

theorem reaper_sweeps_expired:
  assumes "distinct (map fst (activeTokens st))" and "distinct (map fst (authorizationCodes st))"
  shows "activeTokens (reaper now st)
           = filter (\<lambda>(token, data). \<not> tokenExpiresAt data < now) (activeTokens st)
         \<and> authorizationCodes (reaper now st)
           = filter (\<lambda>(code, data). \<not> expiresAt data < now) (authorizationCodes st)
         \<and> (\<forall>(token, data) \<in> set (activeTokens (reaper now st)). \<not> tokenExpiresAt data < now)
         \<and> (\<forall>(code, data) \<in> set (authorizationCodes (reaper now st)). \<not> expiresAt data < now)
         \<and> REAPER_INTERVAL = 60 * 1000"
proof -
  have tokens: "activeTokens (reaper now st)
                  = filter (\<lambda>(token, data). \<not> tokenExpiresAt data < now) (activeTokens st)"
    using assms(1) by (simp add: reaper_def sweep_tokens_filter)
  have codes: "authorizationCodes (reaper now st)
                 = filter (\<lambda>(code, data). \<not> expiresAt data < now) (authorizationCodes st)"
    using assms(2) by (simp add: reaper_def sweep_codes_filter)
  have "\<forall>(token, data) \<in> set (activeTokens (reaper now st)). \<not> tokenExpiresAt data < now"
    unfolding tokens by auto
  moreover have "\<forall>(code, data) \<in> set (authorizationCodes (reaper now st)). \<not> expiresAt data < now"
    unfolding codes by auto
  moreover have "REAPER_INTERVAL = 60 * 1000"
    by (simp add: REAPER_INTERVAL_def)
  ultimately show ?thesis
    using tokens codes by blast
qed

theorem reaper_sweeps_expired_witness:
  "distinct (map fst (activeTokens two_of_each))
   \<and> distinct (map fst (authorizationCodes two_of_each))
   \<and> activeTokens (reaper 100 two_of_each) = [(''new'', \<lparr>tokenExpiresAt = 100\<rparr>)]
   \<and> authorizationCodes (reaper 100 two_of_each)
       = [(''fresh'', \<lparr>codeChallenge = ''abc123'', codeChallengeMethod = ''plain'',
                       clientId = ''client'', redirectUri = ''https://app/cb'', expiresAt = 100\<rparr>)]"
proof -
  have d1: "distinct (map fst (activeTokens two_of_each))"
    and d2: "distinct (map fst (authorizationCodes two_of_each))"
    by (simp_all add: two_of_each_def)
  from reaper_sweeps_expired [OF d1 d2, of 100] d1 d2
  show ?thesis
    by (simp add: two_of_each_def)
qed

section \<open>Properties of the dispatcher\<close>

subsection \<open>Auxiliary facts\<close>

lemma getTool_None_iff: "(getTool tools nm = None) = (nm \<notin> name ` set tools)"
  by (auto simp: getTool_def find_None_iff)

lemma getTool_Some_name: "getTool tools nm = Some tool \<Longrightarrow> name tool = nm \<and> tool \<in> set tools"
  by (auto simp: getTool_def find_Some_iff)

lemma callTool_not_found:
  "getTool tools nm = None \<Longrightarrow>
   callTool stringify tools cfg calls \<lparr>params_name = nm, params_arguments = args\<rparr>
     = (calls, Inl (McpError MethodNotFound (''Tool not found: '' @ nm)))"
  by (simp add: callTool_def)

lemma callTool_denied:
  "getTool tools nm = Some tool \<Longrightarrow> level tool > capabilityLevel cfg \<Longrightarrow>
   callTool stringify tools cfg calls \<lparr>params_name = nm, params_arguments = args\<rparr>
     = (calls, Inl (McpError InvalidRequest
          (''Tool '' @ nm @ '' requires capability level '' @ show_int (level tool)
             @ '', current level is '' @ show_int (capabilityLevel cfg))))"
  by (simp add: callTool_def)

lemma callTool_allowed:
  "getTool tools nm = Some tool \<Longrightarrow> \<not> level tool > capabilityLevel cfg \<Longrightarrow>
   callTool stringify tools cfg calls \<lparr>params_name = nm, params_arguments = args\<rparr>
     = (calls @ [nm],
        case handler tool (case args of None \<Rightarrow> Map.empty | Some a \<Rightarrow> a) cfg of
          Inl e \<Rightarrow> Inr (toolError e)
        | Inr result \<Rightarrow>
            (case stringify result of
               Inl e \<Rightarrow> Inr (toolError e)
             | Inr json \<Rightarrow> Inr \<lparr>content = [ResultJson json], isError = None\<rparr>))"
  using getTool_Some_name [of tools nm tool]
  by (simp add: callTool_def split: sum.split)

lemma set_getToolsForLevel:
  "set (getToolsForLevel tools lvl) = {tool \<in> set tools. level tool \<le> lvl}"
  by (simp add: getToolsForLevel_def)

lemma set_listTools:
  "set (listTools tools cfg) = name ` {tool \<in> set tools. level tool \<le> capabilityLevel cfg}"
  by (simp add: listTools_def set_getToolsForLevel)

lemma errorMessage_simps:
  "errorMessage (JsError m) = m" "errorMessage NonError = ''Unknown error''"
  by (simp_all add: errorMessage_def)

lemma getTool_ALL_TOOLS:
  "getTool (ALL_TOOLS hs) nm
     = map_option (\<lambda>l. \<lparr>name = nm, level = l, handler = hs nm\<rparr>) (map_of registry_levels nm)"
proof -
  have "find (\<lambda>tool. name tool = nm) (map (\<lambda>(n, l). \<lparr>name = n, level = l, handler = hs n\<rparr>) xs)
          = map_option (\<lambda>l. \<lparr>name = nm, level = l, handler = hs nm\<rparr>) (map_of xs nm)"
    for xs :: "(string \<times> int) list"
    by (induction xs) auto
  then show ?thesis
    by (simp add: getTool_def ALL_TOOLS_def)
qed

lemma registry_lookups:
  "map_of registry_levels ''no_such_tool'' = None"
  "map_of registry_levels ''proxmox_delete_vm'' = Some 4"
  "map_of registry_levels ''truenas_status'' = Some 1"
  "map_of registry_levels ''opnsense_status'' = Some 1"
  "map_of registry_levels ''proxmox_status'' = Some 1"
  "map_of registry_levels ''system_info'' = Some 1"
  "map_of registry_levels ''docker_restart_container'' = Some 2"
  by (simp_all add: registry_levels_def)

lemma show_int_4_2: "show_int 4 = ''4''" "show_int 2 = ''2''"
  by (simp_all add: show_int_def show_nat.simps)

subsection \<open>The capability gate\<close>

text \<open>
  Claim C3. A name that the registry does not resolve makes the dispatcher throw
  \<^verbatim>\<open>MethodNotFound\<close>. A name that resolves to a tool whose level is above the
  configured capability level makes it throw an error whose message gives both levels in
  decimal, and the log of handler invocations is unchanged: the handler has not been
  called. (When the level is within the configured one, the invocation is logged.) The
  tools that \<open>getToolsForLevel\<close> returns for a level, and so the tools listed for the
  configured level, are exactly the registered tools whose level is at most that level.
\<close>

theorem dispatcher_capability_gate:
  "(getTool tools nm = None \<longrightarrow>
      callTool stringify tools cfg calls \<lparr>params_name = nm, params_arguments = args\<rparr>
        = (calls, Inl (McpError MethodNotFound (''Tool not found: '' @ nm))))
   \<and> (getTool tools nm = Some tool \<and> level tool > capabilityLevel cfg \<longrightarrow>
      callTool stringify tools cfg calls \<lparr>params_name = nm, params_arguments = args\<rparr>
        = (calls, Inl (McpError InvalidRequest
             (''Tool '' @ nm @ '' requires capability level '' @ show_int (level tool)
                @ '', current level is '' @ show_int (capabilityLevel cfg)))))
   \<and> (getTool tools nm = Some tool \<and> level tool \<le> capabilityLevel cfg \<longrightarrow>
      fst (callTool stringify tools cfg calls \<lparr>params_name = nm, params_arguments = args\<rparr>)
        = calls @ [nm])
   \<and> (getTool tools nm = None) = (nm \<notin> name ` set tools)
   \<and> set (getToolsForLevel tools lvl) = {tool \<in> set tools. level tool \<le> lvl}
   \<and> set (listTools tools cfg) = name ` {tool \<in> set tools. level tool \<le> capabilityLevel cfg}"
proof (intro conjI impI)
  show "getTool tools nm = None \<Longrightarrow>
      callTool stringify tools cfg calls \<lparr>params_name = nm, params_arguments = args\<rparr>
        = (calls, Inl (McpError MethodNotFound (''Tool not found: '' @ nm)))"
    by (rule callTool_not_found)
  show "getTool tools nm = Some tool \<and> level tool > capabilityLevel cfg \<Longrightarrow>
      callTool stringify tools cfg calls \<lparr>params_name = nm, params_arguments = args\<rparr>
        = (calls, Inl (McpError InvalidRequest
             (''Tool '' @ nm @ '' requires capability level '' @ show_int (level tool)
                @ '', current level is '' @ show_int (capabilityLevel cfg))))"
    by (simp add: callTool_denied)
  show "getTool tools nm = Some tool \<and> level tool \<le> capabilityLevel cfg \<Longrightarrow>
      fst (callTool stringify tools cfg calls \<lparr>params_name = nm, params_arguments = args\<rparr>)
        = calls @ [nm]"
    by (simp add: callTool_allowed)
  show "(getTool tools nm = None) = (nm \<notin> name ` set tools)"
    by (rule getTool_None_iff)
  show "set (getToolsForLevel tools lvl) = {tool \<in> set tools. level tool \<le> lvl}"
    by (rule set_getToolsForLevel)
  show "set (listTools tools cfg) = name ` {tool \<in> set tools. level tool \<le> capabilityLevel cfg}"
    by (rule set_listTools)
qed

theorem dispatcher_capability_gate_witness:
  "getTool (ALL_TOOLS example_handlers) ''no_such_tool'' = None
   \<and> callTool example_stringify (ALL_TOOLS example_handlers) example_config []
        \<lparr>params_name = ''no_such_tool'', params_arguments = None\<rparr>
       = ([], Inl (McpError MethodNotFound ''Tool not found: no_such_tool''))
   \<and> getTool (ALL_TOOLS example_handlers) ''proxmox_delete_vm''
       = Some \<lparr>name = ''proxmox_delete_vm'', level = 4, handler = example_handlers ''proxmox_delete_vm''\<rparr>
   \<and> level \<lparr>name = ''proxmox_delete_vm'', level = 4, handler = example_handlers ''proxmox_delete_vm''\<rparr>
        > capabilityLevel example_config
   \<and> callTool example_stringify (ALL_TOOLS example_handlers) example_config []
        \<lparr>params_name = ''proxmox_delete_vm'', params_arguments = None\<rparr>
       = ([], Inl (McpError InvalidRequest
                     ''Tool proxmox_delete_vm requires capability level 4, current level is 2''))
   \<and> fst (callTool example_stringify (ALL_TOOLS example_handlers) example_config []
             \<lparr>params_name = ''docker_restart_container'', params_arguments = None\<rparr>)
       = [''docker_restart_container'']"
proof -
  let ?del = "\<lparr>name = ''proxmox_delete_vm'', level = 4,
               handler = example_handlers ''proxmox_delete_vm''\<rparr>"
  let ?restart = "\<lparr>name = ''docker_restart_container'', level = 2,
                   handler = example_handlers ''docker_restart_container''\<rparr>"
  have absent: "getTool (ALL_TOOLS example_handlers) ''no_such_tool'' = None"
    by (simp add: getTool_ALL_TOOLS registry_lookups)
  have del: "getTool (ALL_TOOLS example_handlers) ''proxmox_delete_vm'' = Some ?del"
    by (simp add: getTool_ALL_TOOLS registry_lookups)
  have restart: "getTool (ALL_TOOLS example_handlers) ''docker_restart_container'' = Some ?restart"
    by (simp add: getTool_ALL_TOOLS registry_lookups)
  have above: "level ?del > capabilityLevel example_config"
    and within: "level ?restart \<le> capabilityLevel example_config"
    and cap: "capabilityLevel example_config = 2"
    by (simp_all add: example_config_def)
  have r1: "callTool example_stringify (ALL_TOOLS example_handlers) example_config []
              \<lparr>params_name = ''no_such_tool'', params_arguments = None\<rparr>
              = ([], Inl (McpError MethodNotFound ''Tool not found: no_such_tool''))"
    using dispatcher_capability_gate
            [where tools = "ALL_TOOLS example_handlers" and nm = "''no_such_tool''"
               and stringify = example_stringify and cfg = example_config and calls = "[]"
               and args = None and tool = ?del and lvl = 2] absent
    by simp
  have r2: "callTool example_stringify (ALL_TOOLS example_handlers) example_config []
              \<lparr>params_name = ''proxmox_delete_vm'', params_arguments = None\<rparr>
              = ([], Inl (McpError InvalidRequest
                   ''Tool proxmox_delete_vm requires capability level 4, current level is 2''))"
    using dispatcher_capability_gate
            [where tools = "ALL_TOOLS example_handlers" and nm = "''proxmox_delete_vm''"
               and stringify = example_stringify and cfg = example_config and calls = "[]"
               and args = None and tool = ?del and lvl = 2] del above cap show_int_4_2
    by simp
  have r3: "fst (callTool example_stringify (ALL_TOOLS example_handlers) example_config []
                   \<lparr>params_name = ''docker_restart_container'', params_arguments = None\<rparr>)
              = [''docker_restart_container'']"
    using dispatcher_capability_gate
            [where tools = "ALL_TOOLS example_handlers" and nm = "''docker_restart_container''"
               and stringify = example_stringify and cfg = example_config and calls = "[]"
               and args = None and tool = ?restart and lvl = 2] restart within
    by simp
  from absent del above r1 r2 r3 show ?thesis
    by (intro conjI)
qed

lemma listTools_example:
  "listTools (ALL_TOOLS example_handlers) example_config
     = [''docker_list_containers'', ''docker_container_logs'', ''docker_container_stats'',
        ''system_info'', ''opnsense_status'', ''truenas_status'', ''truenas_alerts'',
        ''proxmox_status'', ''proxmox_list_vms'', ''proxmox_vm_status'', ''home_assistant_status'',
        ''home_assistant_list_entities'', ''home_assistant_get_entity'',
        ''docker_restart_container'', ''docker_start_container'', ''docker_stop_container'',
        ''opnsense_service_restart'', ''proxmox_start_vm'', ''proxmox_stop_vm'',
        ''proxmox_shutdown_vm'', ''proxmox_reboot_vm'']"
  by (simp add: listTools_def getToolsForLevel_def ALL_TOOLS_def registry_levels_def
                example_config_def)

subsection \<open>Handler failures\<close>

text \<open>
  Claim C7, as amended. For a tool that passes the gate, the dispatcher returns a result
  and throws nothing, whatever the handler does. When the handler throws an
  \<^verbatim>\<open>Error\<close>, the result carries the payload with \<^verbatim>\<open>error\<close> true, code
  \<^verbatim>\<open>TOOL_EXECUTION_ERROR\<close> and the message of that \<^verbatim>\<open>Error\<close>, which is empty when the
  \<^verbatim>\<open>Error\<close>'s message is empty, and \<^verbatim>\<open>isError\<close> is true; when the handler throws
  a value that is no \<^verbatim>\<open>Error\<close>, the message is \<^verbatim>\<open>Unknown error\<close>. When the handler
  returns and its result serialises, the serialised result is returned and
  \<^verbatim>\<open>isError\<close> is absent; when the serialisation throws, the failure is reported like
  a failure of the handler.
\<close>

theorem dispatcher_wraps_handler_failure:
  "getTool tools nm = Some tool \<and> \<not> level tool > capabilityLevel cfg \<longrightarrow>
     (handler tool (case args of None \<Rightarrow> Map.empty | Some a \<Rightarrow> a) cfg = Inl (JsError m) \<longrightarrow>
        callTool stringify tools cfg calls \<lparr>params_name = nm, params_arguments = args\<rparr>
          = (calls @ [nm],
             Inr \<lparr>content = [ErrorJson True ''TOOL_EXECUTION_ERROR'' m], isError = Some True\<rparr>))
   \<and> (handler tool (case args of None \<Rightarrow> Map.empty | Some a \<Rightarrow> a) cfg = Inl NonError \<longrightarrow>
        callTool stringify tools cfg calls \<lparr>params_name = nm, params_arguments = args\<rparr>
          = (calls @ [nm],
             Inr \<lparr>content = [ErrorJson True ''TOOL_EXECUTION_ERROR'' ''Unknown error''],
                  isError = Some True\<rparr>))
   \<and> (handler tool (case args of None \<Rightarrow> Map.empty | Some a \<Rightarrow> a) cfg = Inr result
        \<and> stringify result = Inr json \<longrightarrow>
        callTool stringify tools cfg calls \<lparr>params_name = nm, params_arguments = args\<rparr>
          = (calls @ [nm], Inr \<lparr>content = [ResultJson json], isError = None\<rparr>))
   \<and> (handler tool (case args of None \<Rightarrow> Map.empty | Some a \<Rightarrow> a) cfg = Inr result
        \<and> stringify result = Inl e \<longrightarrow>
        callTool stringify tools cfg calls \<lparr>params_name = nm, params_arguments = args\<rparr>
          = (calls @ [nm],
             Inr \<lparr>content = [ErrorJson True ''TOOL_EXECUTION_ERROR'' (errorMessage e)],
                  isError = Some True\<rparr>))
   \<and> (\<exists>r. snd (callTool stringify tools cfg calls \<lparr>params_name = nm, params_arguments = args\<rparr>)
              = Inr r)"
  by (auto simp: callTool_allowed toolError_def errorMessage_simps split: sum.splits)

text \<open>
  The claim as it stands promises a non-empty message for every throwing handler. A
  handler that throws an \<^verbatim>\<open>Error\<close> with an empty message gets an empty message back.
\<close>

theorem dispatcher_empty_message_counterexample:
  "callTool example_stringify (ALL_TOOLS refused_connection_handlers) example_config []
     \<lparr>params_name = ''truenas_status'', params_arguments = None\<rparr>
     = ([''truenas_status''],
        Inr \<lparr>content = [ErrorJson True ''TOOL_EXECUTION_ERROR'' []], isError = Some True\<rparr>)"
proof -
  have "getTool (ALL_TOOLS refused_connection_handlers) ''truenas_status''
          = Some \<lparr>name = ''truenas_status'', level = 1,
                  handler = refused_connection_handlers ''truenas_status''\<rparr>"
    by (simp add: getTool_ALL_TOOLS registry_lookups)
  from callTool_allowed [OF this, of example_config example_stringify "[]" None]
  show ?thesis
    by (simp add: example_config_def refused_connection_handlers_def toolError_def
                  errorMessage_simps)
qed

theorem dispatcher_wraps_handler_failure_witness:
  "callTool example_stringify (ALL_TOOLS example_handlers) example_config []
     \<lparr>params_name = ''truenas_status'', params_arguments = None\<rparr>
     = ([] @ [''truenas_status''],
        Inr \<lparr>content = [ErrorJson True ''TOOL_EXECUTION_ERROR'' ''connect ECONNREFUSED''],
             isError = Some True\<rparr>)
   \<and> callTool example_stringify (ALL_TOOLS example_handlers) example_config []
        \<lparr>params_name = ''opnsense_status'', params_arguments = None\<rparr>
       = ([] @ [''opnsense_status''],
          Inr \<lparr>content = [ErrorJson True ''TOOL_EXECUTION_ERROR'' ''Unknown error''],
               isError = Some True\<rparr>)
   \<and> callTool example_stringify (ALL_TOOLS example_handlers) example_config []
        \<lparr>params_name = ''system_info'', params_arguments = None\<rparr>
       = ([] @ [''system_info''], Inr \<lparr>content = [ResultJson ''system_info''], isError = None\<rparr>)
   \<and> callTool example_stringify (ALL_TOOLS example_handlers) example_config []
        \<lparr>params_name = ''proxmox_status'', params_arguments = None\<rparr>
       = ([] @ [''proxmox_status''],
          Inr \<lparr>content = [ErrorJson True ''TOOL_EXECUTION_ERROR''
                              (errorMessage (JsError ''Converting circular structure to JSON''))],
               isError = Some True\<rparr>)"
proof -
  let ?tool = "\<lambda>nm. \<lparr>name = nm, level = 1, handler = example_handlers nm\<rparr>"
  have found: "getTool (ALL_TOOLS example_handlers) ''truenas_status'' = Some (?tool ''truenas_status'')"
      "getTool (ALL_TOOLS example_handlers) ''opnsense_status'' = Some (?tool ''opnsense_status'')"
      "getTool (ALL_TOOLS example_handlers) ''system_info'' = Some (?tool ''system_info'')"
      "getTool (ALL_TOOLS example_handlers) ''proxmox_status'' = Some (?tool ''proxmox_status'')"
    by (simp_all add: getTool_ALL_TOOLS registry_lookups)
  have within: "\<not> level (?tool nm) > capabilityLevel example_config" for nm
    by (simp add: example_config_def)
  have outcome:
      "handler (?tool ''truenas_status'') Map.empty example_config
         = Inl (JsError ''connect ECONNREFUSED'')"
      "handler (?tool ''opnsense_status'') Map.empty example_config = Inl NonError"
      "handler (?tool ''system_info'') Map.empty example_config = Inr ''system_info''"
      "handler (?tool ''proxmox_status'') Map.empty example_config = Inr ''proxmox_status''"
      "example_stringify ''system_info'' = Inr ''system_info''"
      "example_stringify ''proxmox_status'' = Inl (JsError ''Converting circular structure to JSON'')"
    by (simp_all add: example_handlers_def example_stringify_def)
  note wraps = dispatcher_wraps_handler_failure
                 [where tools = "ALL_TOOLS example_handlers" and cfg = example_config
                    and stringify = example_stringify and calls = "[]" and args = None]
  have r1: "callTool example_stringify (ALL_TOOLS example_handlers) example_config []
              \<lparr>params_name = ''truenas_status'', params_arguments = None\<rparr>
              = ([] @ [''truenas_status''],
                 Inr \<lparr>content = [ErrorJson True ''TOOL_EXECUTION_ERROR'' ''connect ECONNREFUSED''],
                      isError = Some True\<rparr>)"
    using wraps [where nm = "''truenas_status''" and tool = "?tool ''truenas_status''"
                   and m = "''connect ECONNREFUSED''" and result = "[]" and json = "[]" and e = NonError]
          found(1) within [of "''truenas_status''"] outcome(1)
    by simp
  have r2: "callTool example_stringify (ALL_TOOLS example_handlers) example_config []
              \<lparr>params_name = ''opnsense_status'', params_arguments = None\<rparr>
              = ([] @ [''opnsense_status''],
                 Inr \<lparr>content = [ErrorJson True ''TOOL_EXECUTION_ERROR'' ''Unknown error''],
                      isError = Some True\<rparr>)"
    using wraps [where nm = "''opnsense_status''" and tool = "?tool ''opnsense_status''"
                   and m = "[]" and result = "[]" and json = "[]" and e = NonError]
          found(2) within [of "''opnsense_status''"] outcome(2)
    by simp
  have r3: "callTool example_stringify (ALL_TOOLS example_handlers) example_config []
              \<lparr>params_name = ''system_info'', params_arguments = None\<rparr>
              = ([] @ [''system_info''],
                 Inr \<lparr>content = [ResultJson ''system_info''], isError = None\<rparr>)"
    using wraps [where nm = "''system_info''" and tool = "?tool ''system_info''"
                   and m = "[]" and result = "''system_info''" and json = "''system_info''"
                   and e = NonError]
          found(3) within [of "''system_info''"] outcome(3) outcome(5)
    by simp
  have r4: "callTool example_stringify (ALL_TOOLS example_handlers) example_config []
              \<lparr>params_name = ''proxmox_status'', params_arguments = None\<rparr>
              = ([] @ [''proxmox_status''],
                 Inr \<lparr>content = [ErrorJson True ''TOOL_EXECUTION_ERROR''
                                     (errorMessage (JsError ''Converting circular structure to JSON''))],
                      isError = Some True\<rparr>)"
    using wraps [where nm = "''proxmox_status''" and tool = "?tool ''proxmox_status''"
                   and m = "[]" and result = "''proxmox_status''" and json = "[]"
                   and e = "JsError ''Converting circular structure to JSON''"]
          found(4) within [of "''proxmox_status''"] outcome(4) outcome(6)
    by simp
  from r1 r2 r3 r4 show ?thesis
    by (intro conjI)
qed

section \<open>Properties of the HTTP endpoints\<close>

subsection \<open>Auxiliary facts\<close>

lemma timingSafeEqual_eq: "timingSafeEqual a b = Some (a = b)"
  by (auto simp: timingSafeEqual_def cryptoTimingSafeEqual_def)

lemma validateClientCredentials_iff:
  "validateClientCredentials cid csecret cfg
     = (hasOAuth cfg \<and> oauthClientId cfg = Some cid \<and> oauthClientSecret cfg = Some csecret)"
  by (auto simp: validateClientCredentials_def hasOAuth_def timingSafeEqual_eq truthy_def
           split: option.splits)

lemma validateClientId_iff:
  "validateClientId cid cfg = (cid \<noteq> [] \<and> oauthClientId cfg = Some cid)"
  by (auto simp: validateClientId_def timingSafeEqual_eq truthy_def split: option.splits)

text \<open>On strings the validators on request values are the validators of the module.\<close>

lemma validatePKCE_js_string:
  "validatePKCE_js digest (JString v) ch m = Some (validatePKCE digest v ch m)"
  by (simp add: validatePKCE_js_def validatePKCE_def)

lemma validateAuthorizationCode_js_strings:
  "validateAuthorizationCode_js digest now st (JString c) (JString i) (JString r) (JString v)
     = (fst (validateAuthorizationCode digest now st c i r v),
        Some (snd (validateAuthorizationCode digest now st c i r v)))"
  by (simp add: validateAuthorizationCode_js_def validateAuthorizationCode_def
                validatePKCE_js_string Let_def
           split: option.split)

lemma validateClientCredentials_js_strings:
  "validateClientCredentials_js (JString a) (JString b) cfg = validateClientCredentials a b cfg"
proof -
  have "timingSafeEqual_js (JString x) y = timingSafeEqual x y" for x y
    by (simp add: timingSafeEqual_js_def)
  then show ?thesis
    by (simp add: validateClientCredentials_js_def validateClientCredentials_def
             split: option.split)
qed

text \<open>
  A verifier that is no string, presented for a stored code with method \<^verbatim>\<open>S256\<close> and
  the right client id and redirect URI before the expiry, makes the redemption throw
  after the code has been deleted.
\<close>

lemma validateAuthorizationCode_js_throws:
  assumes "map_of (authorizationCodes st) c = Some cd" "\<not> expiresAt cd < now"
    and "clientId cd = i" "redirectUri cd = r" "codeChallengeMethod cd = ''S256''"
  shows "validateAuthorizationCode_js digest now st (JString c) (JString i) (JString r)
           (JOther t p b)
           = (st\<lparr>authorizationCodes := AList.delete c (authorizationCodes st)\<rparr>, None)"
  using assms by (simp add: validateAuthorizationCode_js_def validatePKCE_js_def Let_def)

lemma string_fields_iff:
  "string_fields p
     = (\<forall>k \<in> set token_fields. \<forall>t pr b. p k \<noteq> Some (JOther t pr b))"
  by (auto simp: string_fields_def list_all_iff split: option.splits jsval.splits)

lemma string_fields_printable:
  assumes "string_fields p"
  shows "printable_val (p ''grant_type'')" "printable_val (p ''client_id'')"
proof -
  have "printable_val (p k)" if "k \<in> set token_fields" for k
  proof (cases "p k")
    case None
    then show ?thesis by simp
  next
    case (Some v)
    with assms that show ?thesis
      by (cases v) (auto simp: string_fields_iff)
  qed
  then show "printable_val (p ''grant_type'')" "printable_val (p ''client_id'')"
    by (simp_all add: token_fields_def)
qed

lemma oauth_token_not_configured:
  "\<not> hasOAuth cfg \<Longrightarrow>
   oauth_token L cfg now rnd st req
     = (st, Json 400 (OAuthError ''unsupported_grant_type''
                        (Some ''OAuth is not configured on this server'')))"
  by (simp add: oauth_token_def)

lemma oauth_token_code_missing:
  assumes "hasOAuth cfg" "read_token_params L req = Some p"
    and "printable_val (p ''grant_type'')" "printable_val (p ''client_id'')"
    and "p ''grant_type'' = Some (JString ''authorization_code'')"
    and "\<not> truthy_val (p ''code'') \<or> \<not> truthy_val (p ''code_verifier'')
         \<or> \<not> truthy_val (p ''redirect_uri'') \<or> \<not> truthy_val (p ''client_id'')"
  shows "oauth_token L cfg now rnd st req
           = (st, Json 400 (OAuthError ''invalid_request''
                    (Some ''Missing code, code_verifier, redirect_uri, or client_id'')))"
  using assms
  by (cases "p ''code''"; cases "p ''code_verifier''"; cases "p ''redirect_uri''";
      cases "p ''client_id''")
     (simp_all add: oauth_token_def)

lemma oauth_token_code_present:
  assumes "hasOAuth cfg" "read_token_params L req = Some p"
    and "p ''grant_type'' = Some (JString ''authorization_code'')"
    and "p ''code'' = Some (JString code)" "p ''code_verifier'' = Some (JString ver)"
    and "p ''redirect_uri'' = Some (JString ruri)" "p ''client_id'' = Some (JString cid)"
    and "truthy code" "truthy ver" "truthy ruri" "truthy cid"
  shows "oauth_token L cfg now rnd st req
           = (let (st', v) = validateAuthorizationCode (crypto_sha256 L) now st code cid ruri ver
              in if \<not> valid v then (st', Json 400 (OAuthError ''invalid_grant'' (error v)))
                 else token_success now rnd st')"
  using assms
  by (simp add: oauth_token_def validateAuthorizationCode_js_strings split_beta)

lemma token_success_response:
  "snd (token_success now rnd st)
     = Json 200 (TokenBody \<lparr>access_token = rnd, token_type = ''Bearer'', expires_in = 3600\<rparr>)"
  by (simp add: token_success_def issueToken_def Let_def TOKEN_EXPIRATION_def)

lemma token_success_store: "fst (token_success now rnd st) = fst (issueToken now rnd st)"
  by (simp add: token_success_def split_beta)

lemma oauth_token_credentials_missing:
  assumes "hasOAuth cfg" "read_token_params L req = Some p"
    and "printable_val (p ''grant_type'')" "printable_val (p ''client_id'')"
    and "p ''grant_type'' = Some (JString ''client_credentials'')"
    and "\<not> truthy_val (p ''client_id'') \<or> \<not> truthy_val (p ''client_secret'')"
  shows "oauth_token L cfg now rnd st req
           = (st, Json 400 (OAuthError ''invalid_request''
                    (Some ''Missing client_id or client_secret'')))"
  using assms
  by (cases "p ''client_id''"; cases "p ''client_secret''") (simp_all add: oauth_token_def)

lemma oauth_token_credentials_present:
  assumes "hasOAuth cfg" "read_token_params L req = Some p"
    and "p ''grant_type'' = Some (JString ''client_credentials'')"
    and "p ''client_id'' = Some (JString cid)" "p ''client_secret'' = Some (JString csecret)"
    and "truthy cid" "truthy csecret"
  shows "oauth_token L cfg now rnd st req
           = (if oauthClientId cfg = Some cid \<and> oauthClientSecret cfg = Some csecret
              then token_success now rnd st
              else (st, Json 401 (OAuthError ''invalid_client''
                           (Some ''Invalid client credentials''))))"
  using assms
  by (simp add: oauth_token_def validateClientCredentials_js_strings
                validateClientCredentials_iff)

lemma oauth_token_other_grant:
  assumes "hasOAuth cfg" "read_token_params L req = Some p"
    and "printable_val (p ''grant_type'')" "printable_val (p ''client_id'')"
    and "p ''grant_type'' \<noteq> Some (JString ''authorization_code'')"
    and "p ''grant_type'' \<noteq> Some (JString ''client_credentials'')"
  shows "oauth_token L cfg now rnd st req
           = (st, Json 400 (OAuthError ''unsupported_grant_type''
                    (Some ''Supported grant types: authorization_code, client_credentials'')))"
  using assms by (simp add: oauth_token_def)

text \<open>The three ways the handler's \<^verbatim>\<open>try\<close> block ends in the \<^verbatim>\<open>catch\<close>.\<close>

lemma oauth_token_server_error:
  assumes "hasOAuth cfg"
  shows "read_token_params L req = None \<Longrightarrow> oauth_token L cfg now rnd st req = (st, server_error)"
    and "read_token_params L req = Some p \<Longrightarrow>
         \<not> printable_val (p ''grant_type'') \<or> \<not> printable_val (p ''client_id'') \<Longrightarrow>
         oauth_token L cfg now rnd st req = (st, server_error)"
    and "read_token_params L req = Some p \<Longrightarrow>
         printable_val (p ''client_id'') \<Longrightarrow>
         p ''grant_type'' = Some (JString ''authorization_code'') \<Longrightarrow>
         p ''code'' = Some code \<Longrightarrow> p ''code_verifier'' = Some ver \<Longrightarrow>
         p ''redirect_uri'' = Some ruri \<Longrightarrow> p ''client_id'' = Some cid \<Longrightarrow>
         js_truthy code \<Longrightarrow> js_truthy ver \<Longrightarrow> js_truthy ruri \<Longrightarrow> js_truthy cid \<Longrightarrow>
         validateAuthorizationCode_js (crypto_sha256 L) now st code cid ruri ver = (st', None) \<Longrightarrow>
         oauth_token L cfg now rnd st req = (st', server_error)"
  using assms by (simp_all add: oauth_token_def)

lemma read_token_params_basic:
  assumes "authorization req = Some h"
    and "parseBasicAuth (buffer_base64_decode L) h = Some (bid, bsecret)"
    and "read_token_params L (req\<lparr>authorization := None\<rparr>) = Some b"
  shows "read_token_params L req
           = Some (b(''client_id'' := or_else_val (b ''client_id'') bid,
                     ''client_secret'' := or_else_val (b ''client_secret'') bsecret))"
proof -
  from assms(2) have basic: "startsWith h ''Basic ''"
    by (auto simp: parseBasicAuth_def split: if_splits)
  then have "h \<noteq> []"
    by (auto simp: startsWith_def)
  with assms basic show ?thesis
    by (auto simp: read_token_params_def Let_def truthy_def split: option.splits if_splits)
qed

lemma authorize_issues:
  assumes "hasOAuth cfg" "query ''response_type'' = Some ''code''"
    and "query ''client_id'' = Some cid" "cid \<noteq> []"
    and "query ''redirect_uri'' = Some ruri" "ruri \<noteq> []"
    and "query ''code_challenge'' = Some ch" "ch \<noteq> []"
  shows "authorize L cfg now rnd st query
           = (if url_accepts L ruri
              then Some (fst (createAuthorizationCode now rnd st cid ruri ch
                                (case or_else (query ''code_challenge_method'') ''plain'' of
                                   None \<Rightarrow> ''plain'' | Some m \<Rightarrow> m)),
                         Redirect ruri
                           ((''code'', rnd) #
                            (case query ''state'' of
                               None \<Rightarrow> []
                             | Some s \<Rightarrow> if truthy s then [(''state'', s)] else [])))
              else None)"
  using assms by (simp add: authorize_def Let_def truthy_def createAuthorizationCode_def)

lemma read_token_params_form:
  "read_token_params L (form_request b)
     = (case parseFormUrlEncoded (js_decodeURIComponent L) b of
          None \<Rightarrow> None
        | Some params \<Rightarrow> Some (\<lambda>k. map_option JString (params k)))"
  by (simp add: read_token_params_def form_request_def split: option.split)

lemma example_forms_parsed:
  "parseFormUrlEncoded example_decode
     ''grant_type=authorization_code&code=c0de&code_verifier=abc123&redirect_uri=https://app/cb&client_id=intruder''
     = Some [''grant_type'' \<mapsto> ''authorization_code'', ''code'' \<mapsto> ''c0de'',
             ''code_verifier'' \<mapsto> ''abc123'', ''redirect_uri'' \<mapsto> ''https://app/cb'',
             ''client_id'' \<mapsto> ''intruder'']"
  "parseFormUrlEncoded example_decode ''grant_type=authorization_code''
     = Some [''grant_type'' \<mapsto> ''authorization_code'']"
  "parseFormUrlEncoded example_decode
     ''grant_type=client_credentials&client_id=homelab&client_secret=hunter2''
     = Some [''grant_type'' \<mapsto> ''client_credentials'', ''client_id'' \<mapsto> ''homelab'',
             ''client_secret'' \<mapsto> ''hunter2'']"
  "parseFormUrlEncoded example_decode
     ''grant_type=client_credentials&client_id=homelab&client_secret=hunter3''
     = Some [''grant_type'' \<mapsto> ''client_credentials'', ''client_id'' \<mapsto> ''homelab'',
             ''client_secret'' \<mapsto> ''hunter3'']"
  "parseFormUrlEncoded example_decode ''grant_type=client_credentials&client_id=homelab''
     = Some [''grant_type'' \<mapsto> ''client_credentials'', ''client_id'' \<mapsto> ''homelab'']"
  "parseFormUrlEncoded example_decode ''grant_type=password&username=u&password=p''
     = Some [''grant_type'' \<mapsto> ''password'', ''username'' \<mapsto> ''u'', ''password'' \<mapsto> ''p'']"
  "parseFormUrlEncoded example_decode ''grant_type=client_credentials''
     = Some [''grant_type'' \<mapsto> ''client_credentials'']"
  "parseFormUrlEncoded example_decode ''grant_type=authorization_code&code=%zz'' = None"
  by (simp_all add: parseFormUrlEncoded_def truthy_def example_decode_def)

lemma form_requests_parsed:
  "read_token_params example_lib code_request
     = Some (\<lambda>k. map_option JString
               ([''grant_type'' \<mapsto> ''authorization_code'', ''code'' \<mapsto> ''c0de'',
                 ''code_verifier'' \<mapsto> ''abc123'', ''redirect_uri'' \<mapsto> ''https://app/cb'',
                 ''client_id'' \<mapsto> ''intruder''] k))"
  "read_token_params example_lib bare_code_request
     = Some (\<lambda>k. map_option JString ([''grant_type'' \<mapsto> ''authorization_code''] k))"
  "read_token_params example_lib credentials_request
     = Some (\<lambda>k. map_option JString
               ([''grant_type'' \<mapsto> ''client_credentials'', ''client_id'' \<mapsto> ''homelab'',
                 ''client_secret'' \<mapsto> ''hunter2''] k))"
  "read_token_params example_lib wrong_secret_request
     = Some (\<lambda>k. map_option JString
               ([''grant_type'' \<mapsto> ''client_credentials'', ''client_id'' \<mapsto> ''homelab'',
                 ''client_secret'' \<mapsto> ''hunter3''] k))"
  "read_token_params example_lib no_secret_request
     = Some (\<lambda>k. map_option JString
               ([''grant_type'' \<mapsto> ''client_credentials'', ''client_id'' \<mapsto> ''homelab''] k))"
  "read_token_params example_lib password_request
     = Some (\<lambda>k. map_option JString
               ([''grant_type'' \<mapsto> ''password'', ''username'' \<mapsto> ''u'',
                 ''password'' \<mapsto> ''p''] k))"
  unfolding code_request_def bare_code_request_def credentials_request_def
    wrong_secret_request_def no_secret_request_def password_request_def read_token_params_form
  by (simp_all only: example_forms_parsed option.case lib.simps example_lib_def)

lemma malformed_request_fails: "read_token_params example_lib malformed_request = None"
  unfolding malformed_request_def read_token_params_form
  by (simp only: example_forms_parsed option.case lib.simps example_lib_def)

lemma example_configs: "hasOAuth example_config" "\<not> hasOAuth api_key_only_config"
  by (simp_all add: hasOAuth_def example_config_def api_key_only_config_def truthy_def)

subsection \<open>The comparison with the API key\<close>

text \<open>
  Claim C2 says that the bearer token is compared with the static API key in constant
  time. Running time is outside the model; what the model does record is the primitive a
  comparison is made with. The only comparison \<open>validateAccessToken\<close> makes with the API
  key is the \<^verbatim>\<open>===\<close> operator on the two strings, and its outcome is what decides
  the API-key branch; the client-credential check next to it makes both of its
  comparisons with \<^verbatim>\<open>timingSafeEqual\<close>, and their outcomes are its result.
\<close>

theorem api_key_compared_with_strict_equals:
  "(apiKey cfg \<noteq> [] \<longrightarrow>
      validateAccessToken_comparisons token cfg = [StrictEquals token (apiKey cfg)])
   \<and> (apiKey cfg = [] \<longrightarrow> validateAccessToken_comparisons token cfg = [])
   \<and> (list_ex comparison_holds (validateAccessToken_comparisons token cfg) \<longrightarrow>
        validateAccessToken now st token cfg = (st, True))
   \<and> (\<not> list_ex comparison_holds (validateAccessToken_comparisons token cfg) \<longrightarrow>
        snd (validateAccessToken now st token cfg)
          = (\<exists>d. map_of (activeTokens st) token = Some d \<and> now \<le> tokenExpiresAt d))
   \<and> (oauthClientId cfg = Some cfgId \<and> cfgId \<noteq> []
        \<and> oauthClientSecret cfg = Some cfgSecret \<and> cfgSecret \<noteq> [] \<longrightarrow>
        validateClientCredentials_comparisons cid csecret cfg
          = [TimingSafeEqual cid cfgId, TimingSafeEqual csecret cfgSecret])
   \<and> validateClientCredentials cid csecret cfg
       = (validateClientCredentials_comparisons cid csecret cfg \<noteq> []
          \<and> list_all comparison_holds (validateClientCredentials_comparisons cid csecret cfg))"
proof -
  have key: "list_ex comparison_holds (validateAccessToken_comparisons token cfg)
               = (truthy (apiKey cfg) \<and> token = apiKey cfg)"
    by (simp add: validateAccessToken_comparisons_def comparison_holds_def)
  have a: "apiKey cfg \<noteq> [] \<longrightarrow>
             validateAccessToken_comparisons token cfg = [StrictEquals token (apiKey cfg)]"
    and b: "apiKey cfg = [] \<longrightarrow> validateAccessToken_comparisons token cfg = []"
    by (simp_all add: validateAccessToken_comparisons_def truthy_def)
  have c: "list_ex comparison_holds (validateAccessToken_comparisons token cfg) \<longrightarrow>
             validateAccessToken now st token cfg = (st, True)"
    unfolding key by (simp add: validateAccessToken_def)
  have d: "\<not> list_ex comparison_holds (validateAccessToken_comparisons token cfg) \<longrightarrow>
             snd (validateAccessToken now st token cfg)
               = (\<exists>d. map_of (activeTokens st) token = Some d \<and> now \<le> tokenExpiresAt d)"
    unfolding key by (auto simp: validateAccessToken_result truthy_def)
  have e: "oauthClientId cfg = Some cfgId \<and> cfgId \<noteq> []
             \<and> oauthClientSecret cfg = Some cfgSecret \<and> cfgSecret \<noteq> [] \<longrightarrow>
           validateClientCredentials_comparisons cid csecret cfg
             = [TimingSafeEqual cid cfgId, TimingSafeEqual csecret cfgSecret]"
    by (simp add: validateClientCredentials_comparisons_def truthy_def)
  have f: "validateClientCredentials cid csecret cfg
             = (validateClientCredentials_comparisons cid csecret cfg \<noteq> []
                \<and> list_all comparison_holds (validateClientCredentials_comparisons cid csecret cfg))"
    by (auto simp: validateClientCredentials_def validateClientCredentials_comparisons_def
                   comparison_holds_def timingSafeEqual_eq
             split: option.splits)
  from a b c d e f show ?thesis
    by (intro conjI)
qed

theorem api_key_compared_with_strict_equals_witness:
  "apiKey example_config \<noteq> []
   \<and> validateAccessToken_comparisons ''secreX'' example_config = [StrictEquals ''secreX'' ''secret'']
   \<and> validateAccessToken_comparisons ''Xecret'' example_config = [StrictEquals ''Xecret'' ''secret'']
   \<and> validateClientCredentials_comparisons ''homelab'' ''hunter3'' example_config
       = [TimingSafeEqual ''homelab'' ''homelab'', TimingSafeEqual ''hunter3'' ''hunter2'']"
proof -
  have cfg: "apiKey example_config = ''secret''" "''secret'' \<noteq> []"
      "oauthClientId example_config = Some ''homelab''" "''homelab'' \<noteq> []"
      "oauthClientSecret example_config = Some ''hunter2''" "''hunter2'' \<noteq> []"
    by (simp_all add: example_config_def)
  from cfg
    api_key_compared_with_strict_equals
      [where cfg = example_config and token = "''secreX''" and cfgId = "''homelab''"
         and cfgSecret = "''hunter2''" and cid = "''homelab''" and csecret = "''hunter3''"]
    api_key_compared_with_strict_equals
      [where cfg = example_config and token = "''Xecret''" and cfgId = "''homelab''"
         and cfgSecret = "''hunter2''" and cid = "''homelab''" and csecret = "''hunter3''"]
  show ?thesis
    by simp
qed

subsection \<open>POST /oauth/token\<close>

text \<open>
  Claim C8, as amended. On a server without a configured OAuth client (id or secret
  missing or empty) every token request is answered with 400 and
  \<^verbatim>\<open>unsupported_grant_type\<close>. On a server with one, for a request whose fields have
  been read and are strings (an empty field counts as missing): with grant type
  \<^verbatim>\<open>authorization_code\<close> the answer is 400 \<^verbatim>\<open>invalid_request\<close> when one of code,
  verifier, redirect URI and client id is missing, 400 \<^verbatim>\<open>invalid_grant\<close> with the
  reason when redemption fails, and 200 with the new token, type \<^verbatim>\<open>Bearer\<close> and 3600
  seconds when it succeeds; with grant type \<^verbatim>\<open>client_credentials\<close> the answer is 400
  \<^verbatim>\<open>invalid_request\<close> when id or secret is missing, the same success answer when both
  equal the configured ones, and 401 \<^verbatim>\<open>invalid_client\<close> otherwise; with any other
  grant type, or none, it is 400 \<^verbatim>\<open>unsupported_grant_type\<close>. The fields are those of
  the body, except that a client id or secret that the body lacks is taken from an HTTP
  Basic header. Nothing is said of a request that makes the handler throw.
\<close>

theorem oauth_token_responses:
  "(\<not> hasOAuth cfg \<longrightarrow>
      oauth_token L cfg now rnd st req
        = (st, Json 400 (OAuthError ''unsupported_grant_type''
                           (Some ''OAuth is not configured on this server''))))
   \<and> (hasOAuth cfg \<and> read_token_params L req = Some p \<and> string_fields p
        \<and> p ''grant_type'' = Some (JString ''authorization_code'')
        \<and> (\<not> truthy_val (p ''code'') \<or> \<not> truthy_val (p ''code_verifier'')
             \<or> \<not> truthy_val (p ''redirect_uri'') \<or> \<not> truthy_val (p ''client_id'')) \<longrightarrow>
      oauth_token L cfg now rnd st req
        = (st, Json 400 (OAuthError ''invalid_request''
                           (Some ''Missing code, code_verifier, redirect_uri, or client_id''))))
   \<and> (hasOAuth cfg \<and> read_token_params L req = Some p
        \<and> p ''grant_type'' = Some (JString ''authorization_code'')
        \<and> p ''code'' = Some (JString code) \<and> code \<noteq> []
        \<and> p ''code_verifier'' = Some (JString ver) \<and> ver \<noteq> []
        \<and> p ''redirect_uri'' = Some (JString ruri) \<and> ruri \<noteq> []
        \<and> p ''client_id'' = Some (JString cid) \<and> cid \<noteq> [] \<longrightarrow>
      (valid (snd (validateAuthorizationCode (crypto_sha256 L) now st code cid ruri ver)) \<longrightarrow>
         oauth_token L cfg now rnd st req
           = (fst (issueToken now rnd
                     (fst (validateAuthorizationCode (crypto_sha256 L) now st code cid ruri ver))),
              Json 200 (TokenBody \<lparr>access_token = rnd, token_type = ''Bearer'',
                                    expires_in = 3600\<rparr>)))
      \<and> (\<not> valid (snd (validateAuthorizationCode (crypto_sha256 L) now st code cid ruri ver)) \<longrightarrow>
         oauth_token L cfg now rnd st req
           = (fst (validateAuthorizationCode (crypto_sha256 L) now st code cid ruri ver),
              Json 400 (OAuthError ''invalid_grant''
                (error (snd (validateAuthorizationCode (crypto_sha256 L) now st code cid ruri
                               ver)))))))
   \<and> (hasOAuth cfg \<and> read_token_params L req = Some p \<and> string_fields p
        \<and> p ''grant_type'' = Some (JString ''client_credentials'')
        \<and> (\<not> truthy_val (p ''client_id'') \<or> \<not> truthy_val (p ''client_secret'')) \<longrightarrow>
      oauth_token L cfg now rnd st req
        = (st, Json 400 (OAuthError ''invalid_request''
                           (Some ''Missing client_id or client_secret''))))
   \<and> (hasOAuth cfg \<and> read_token_params L req = Some p
        \<and> p ''grant_type'' = Some (JString ''client_credentials'')
        \<and> p ''client_id'' = Some (JString cid) \<and> cid \<noteq> []
        \<and> p ''client_secret'' = Some (JString csecret) \<and> csecret \<noteq> [] \<longrightarrow>
      (oauthClientId cfg = Some cid \<and> oauthClientSecret cfg = Some csecret \<longrightarrow>
         oauth_token L cfg now rnd st req
           = (fst (issueToken now rnd st),
              Json 200 (TokenBody \<lparr>access_token = rnd, token_type = ''Bearer'',
                                    expires_in = 3600\<rparr>)))
      \<and> (\<not> (oauthClientId cfg = Some cid \<and> oauthClientSecret cfg = Some csecret) \<longrightarrow>
         oauth_token L cfg now rnd st req
           = (st, Json 401 (OAuthError ''invalid_client'' (Some ''Invalid client credentials'')))))
   \<and> (hasOAuth cfg \<and> read_token_params L req = Some p \<and> string_fields p
        \<and> p ''grant_type'' \<noteq> Some (JString ''authorization_code'')
        \<and> p ''grant_type'' \<noteq> Some (JString ''client_credentials'') \<longrightarrow>
      oauth_token L cfg now rnd st req
        = (st, Json 400 (OAuthError ''unsupported_grant_type''
                 (Some ''Supported grant types: authorization_code, client_credentials''))))
   \<and> (authorization req = Some h
        \<and> parseBasicAuth (buffer_base64_decode L) h = Some (bid, bsecret)
        \<and> read_token_params L (req\<lparr>authorization := None\<rparr>) = Some b \<longrightarrow>
      read_token_params L req
        = Some (b(''client_id'' := or_else_val (b ''client_id'') bid,
                  ''client_secret'' := or_else_val (b ''client_secret'') bsecret))
      \<and> (\<not> truthy_val (b ''client_id'') \<longrightarrow>
           or_else_val (b ''client_id'') bid = Some (JString bid))
      \<and> (\<not> truthy_val (b ''client_secret'') \<longrightarrow>
           or_else_val (b ''client_secret'') bsecret = Some (JString bsecret))
      \<and> (truthy_val (b ''client_id'') \<longrightarrow> or_else_val (b ''client_id'') bid = b ''client_id'')
      \<and> (truthy_val (b ''client_secret'') \<longrightarrow>
           or_else_val (b ''client_secret'') bsecret = b ''client_secret''))"
proof (intro conjI impI)
  show "oauth_token L cfg now rnd st req
          = (st, Json 400 (OAuthError ''unsupported_grant_type''
                             (Some ''OAuth is not configured on this server'')))"
    if "\<not> hasOAuth cfg"
    using that by (rule oauth_token_not_configured)
  show "oauth_token L cfg now rnd st req
          = (st, Json 400 (OAuthError ''invalid_request''
                             (Some ''Missing code, code_verifier, redirect_uri, or client_id'')))"
    if "hasOAuth cfg \<and> read_token_params L req = Some p \<and> string_fields p
        \<and> p ''grant_type'' = Some (JString ''authorization_code'')
        \<and> (\<not> truthy_val (p ''code'') \<or> \<not> truthy_val (p ''code_verifier'')
             \<or> \<not> truthy_val (p ''redirect_uri'') \<or> \<not> truthy_val (p ''client_id''))"
    using that string_fields_printable [of p]
    by (intro oauth_token_code_missing [where p = p]) simp_all
  have present: "oauth_token L cfg now rnd st req
          = (let (st', v) = validateAuthorizationCode (crypto_sha256 L) now st code cid ruri ver
             in if \<not> valid v then (st', Json 400 (OAuthError ''invalid_grant'' (error v)))
                else token_success now rnd st')"
    if "hasOAuth cfg \<and> read_token_params L req = Some p
        \<and> p ''grant_type'' = Some (JString ''authorization_code'')
        \<and> p ''code'' = Some (JString code) \<and> code \<noteq> []
        \<and> p ''code_verifier'' = Some (JString ver) \<and> ver \<noteq> []
        \<and> p ''redirect_uri'' = Some (JString ruri) \<and> ruri \<noteq> []
        \<and> p ''client_id'' = Some (JString cid) \<and> cid \<noteq> []"
    using that by (intro oauth_token_code_present [where p = p]) (simp_all add: truthy_def)
  have success: "token_success now rnd s
                   = (fst (issueToken now rnd s),
                      Json 200 (TokenBody \<lparr>access_token = rnd, token_type = ''Bearer'',
                                            expires_in = 3600\<rparr>))" for s
    using token_success_response [of now rnd s] token_success_store [of now rnd s]
    by (metis prod.collapse)
  show "oauth_token L cfg now rnd st req
          = (fst (issueToken now rnd
                    (fst (validateAuthorizationCode (crypto_sha256 L) now st code cid ruri ver))),
             Json 200 (TokenBody \<lparr>access_token = rnd, token_type = ''Bearer'',
                                   expires_in = 3600\<rparr>))"
    if "hasOAuth cfg \<and> read_token_params L req = Some p
        \<and> p ''grant_type'' = Some (JString ''authorization_code'')
        \<and> p ''code'' = Some (JString code) \<and> code \<noteq> []
        \<and> p ''code_verifier'' = Some (JString ver) \<and> ver \<noteq> []
        \<and> p ''redirect_uri'' = Some (JString ruri) \<and> ruri \<noteq> []
        \<and> p ''client_id'' = Some (JString cid) \<and> cid \<noteq> []"
      and "valid (snd (validateAuthorizationCode (crypto_sha256 L) now st code cid ruri ver))"
    using that(2) by (simp add: present [OF that(1)] split_beta success)
  show "oauth_token L cfg now rnd st req
          = (fst (validateAuthorizationCode (crypto_sha256 L) now st code cid ruri ver),
             Json 400 (OAuthError ''invalid_grant''
               (error (snd (validateAuthorizationCode (crypto_sha256 L) now st code cid ruri
                              ver)))))"
    if "hasOAuth cfg \<and> read_token_params L req = Some p
        \<and> p ''grant_type'' = Some (JString ''authorization_code'')
        \<and> p ''code'' = Some (JString code) \<and> code \<noteq> []
        \<and> p ''code_verifier'' = Some (JString ver) \<and> ver \<noteq> []
        \<and> p ''redirect_uri'' = Some (JString ruri) \<and> ruri \<noteq> []
        \<and> p ''client_id'' = Some (JString cid) \<and> cid \<noteq> []"
      and "\<not> valid (snd (validateAuthorizationCode (crypto_sha256 L) now st code cid ruri ver))"
    using that(2) by (simp add: present [OF that(1)] split_beta)
  show "oauth_token L cfg now rnd st req
          = (st, Json 400 (OAuthError ''invalid_request''
                             (Some ''Missing client_id or client_secret'')))"
    if "hasOAuth cfg \<and> read_token_params L req = Some p \<and> string_fields p
        \<and> p ''grant_type'' = Some (JString ''client_credentials'')
        \<and> (\<not> truthy_val (p ''client_id'') \<or> \<not> truthy_val (p ''client_secret''))"
    using that string_fields_printable [of p]
    by (intro oauth_token_credentials_missing [where p = p]) simp_all
  have credentials: "oauth_token L cfg now rnd st req
          = (if oauthClientId cfg = Some cid \<and> oauthClientSecret cfg = Some csecret
             then token_success now rnd st
             else (st, Json 401 (OAuthError ''invalid_client''
                          (Some ''Invalid client credentials''))))"
    if "hasOAuth cfg \<and> read_token_params L req = Some p
        \<and> p ''grant_type'' = Some (JString ''client_credentials'')
        \<and> p ''client_id'' = Some (JString cid) \<and> cid \<noteq> []
        \<and> p ''client_secret'' = Some (JString csecret) \<and> csecret \<noteq> []"
    using that
    by (intro oauth_token_credentials_present [where p = p]) (simp_all add: truthy_def)
  show "oauth_token L cfg now rnd st req
          = (fst (issueToken now rnd st),
             Json 200 (TokenBody \<lparr>access_token = rnd, token_type = ''Bearer'',
                                   expires_in = 3600\<rparr>))"
    if "hasOAuth cfg \<and> read_token_params L req = Some p
        \<and> p ''grant_type'' = Some (JString ''client_credentials'')
        \<and> p ''client_id'' = Some (JString cid) \<and> cid \<noteq> []
        \<and> p ''client_secret'' = Some (JString csecret) \<and> csecret \<noteq> []"
      and "oauthClientId cfg = Some cid \<and> oauthClientSecret cfg = Some csecret"
    using that(2) by (simp add: credentials [OF that(1)] success)
  show "oauth_token L cfg now rnd st req
          = (st, Json 401 (OAuthError ''invalid_client'' (Some ''Invalid client credentials'')))"
    if "hasOAuth cfg \<and> read_token_params L req = Some p
        \<and> p ''grant_type'' = Some (JString ''client_credentials'')
        \<and> p ''client_id'' = Some (JString cid) \<and> cid \<noteq> []
        \<and> p ''client_secret'' = Some (JString csecret) \<and> csecret \<noteq> []"
      and "\<not> (oauthClientId cfg = Some cid \<and> oauthClientSecret cfg = Some csecret)"
    using that(2) by (simp only: credentials [OF that(1)] if_False)
  show "oauth_token L cfg now rnd st req
          = (st, Json 400 (OAuthError ''unsupported_grant_type''
                   (Some ''Supported grant types: authorization_code, client_credentials'')))"
    if "hasOAuth cfg \<and> read_token_params L req = Some p \<and> string_fields p
        \<and> p ''grant_type'' \<noteq> Some (JString ''authorization_code'')
        \<and> p ''grant_type'' \<noteq> Some (JString ''client_credentials'')"
    using that string_fields_printable [of p]
    by (intro oauth_token_other_grant [where p = p]) simp_all
  show "read_token_params L req
          = Some (b(''client_id'' := or_else_val (b ''client_id'') bid,
                    ''client_secret'' := or_else_val (b ''client_secret'') bsecret))"
    if "authorization req = Some h
        \<and> parseBasicAuth (buffer_base64_decode L) h = Some (bid, bsecret)
        \<and> read_token_params L (req\<lparr>authorization := None\<rparr>) = Some b"
    using that by (intro read_token_params_basic [where h = h]) simp_all
  show "or_else_val (b ''client_id'') bid = Some (JString bid)"
    if "\<not> truthy_val (b ''client_id'')"
    using that by (simp add: or_else_val_def)
  show "or_else_val (b ''client_secret'') bsecret = Some (JString bsecret)"
    if "\<not> truthy_val (b ''client_secret'')"
    using that by (simp add: or_else_val_def)
  show "or_else_val (b ''client_id'') bid = b ''client_id''"
    if "truthy_val (b ''client_id'')"
    using that by (simp add: or_else_val_def)
  show "or_else_val (b ''client_secret'') bsecret = b ''client_secret''"
    if "truthy_val (b ''client_secret'')"
    using that by (simp add: or_else_val_def)
qed

text \<open>
  The claim as it stands has no condition on the configuration. On a server that runs
  with an API key only, a request with grant type \<^verbatim>\<open>authorization_code\<close> and no other
  field is answered with \<^verbatim>\<open>unsupported_grant_type\<close>, not with \<^verbatim>\<open>invalid_request\<close>.
\<close>

theorem oauth_token_not_configured_counterexample:
  "requested_grant example_lib bare_code_request = Some (JString ''authorization_code'')
   \<and> oauth_token example_lib api_key_only_config 0 ''t0ken'' empty_state bare_code_request
       = (empty_state,
          Json 400 (OAuthError ''unsupported_grant_type''
                      (Some ''OAuth is not configured on this server'')))"
  by (simp add: requested_grant_def form_requests_parsed oauth_token_not_configured
                example_configs)
lemma crypto_sha256_example: "crypto_sha256 example_lib = example_sha256"
  by (simp add: example_lib_def)

lemma intruder_code_valid:
  "snd (validateAuthorizationCode example_sha256 1000
          (fst (createAuthorizationCode 0 ''c0de'' empty_state ''intruder'' ''https://app/cb''
                  ''bKE9UspwyIPg8LsQHkJaiehiTeUdstI5JZOvaoQRgJA'' ''S256''))
          ''c0de'' ''intruder'' ''https://app/cb'' ''abc123'')
     = \<lparr>valid = True, error = None\<rparr>"
  by (simp add: validateAuthorizationCode_present [OF createAuthorizationCode_lookup]
                validatePKCE_def example_digest)

lemma unknown_code_invalid:
  "snd (validateAuthorizationCode example_sha256 1000 empty_state
          ''c0de'' ''intruder'' ''https://app/cb'' ''abc123'')
     = \<lparr>valid = False, error = Some ''Invalid authorization code''\<rparr>"
  by (simp add: validateAuthorizationCode_absent empty_state_def)

lemma basic_header_parsed:
  "parseBasicAuth (buffer_base64_decode example_lib) ''Basic aG9tZWxhYjpodW50ZXIy''
     = Some (''homelab'', ''hunter2'')"
  by (simp add: parseBasicAuth_def startsWith_def example_lib_def example_base64_decode_def
                truthy_def)

lemma basic_request_body:
  "read_token_params example_lib (basic_request\<lparr>authorization := None\<rparr>)
     = Some (\<lambda>k. map_option JString ([''grant_type'' \<mapsto> ''client_credentials''] k))"
proof -
  have "basic_request\<lparr>authorization := None\<rparr> = form_request ''grant_type=client_credentials''"
    by (simp add: basic_request_def form_request_def)
  then show ?thesis
    unfolding read_token_params_form
    by (simp only: read_token_params_form example_forms_parsed option.case lib.simps
                   example_lib_def)
qed

theorem oauth_token_responses_witness:
  "read_token_params example_lib code_request
     = Some (\<lambda>k. map_option JString
               ([''grant_type'' \<mapsto> ''authorization_code'', ''code'' \<mapsto> ''c0de'',
                 ''code_verifier'' \<mapsto> ''abc123'', ''redirect_uri'' \<mapsto> ''https://app/cb'',
                 ''client_id'' \<mapsto> ''intruder''] k))
   \<and> snd (oauth_token example_lib example_config 1000 ''t0ken''
            (fst (createAuthorizationCode 0 ''c0de'' empty_state ''intruder'' ''https://app/cb''
                    ''bKE9UspwyIPg8LsQHkJaiehiTeUdstI5JZOvaoQRgJA'' ''S256''))
            code_request)
       = Json 200 (TokenBody \<lparr>access_token = ''t0ken'', token_type = ''Bearer'', expires_in = 3600\<rparr>)
   \<and> snd (oauth_token example_lib example_config 1000 ''t0ken'' empty_state code_request)
       = Json 400 (OAuthError ''invalid_grant'' (Some ''Invalid authorization code''))
   \<and> oauth_token example_lib example_config 1000 ''t0ken'' empty_state bare_code_request
       = (empty_state,
          Json 400 (OAuthError ''invalid_request''
                      (Some ''Missing code, code_verifier, redirect_uri, or client_id'')))
   \<and> snd (oauth_token example_lib example_config 1000 ''t0ken'' empty_state credentials_request)
       = Json 200 (TokenBody \<lparr>access_token = ''t0ken'', token_type = ''Bearer'', expires_in = 3600\<rparr>)
   \<and> oauth_token example_lib example_config 1000 ''t0ken'' empty_state wrong_secret_request
       = (empty_state, Json 401 (OAuthError ''invalid_client'' (Some ''Invalid client credentials'')))
   \<and> oauth_token example_lib example_config 1000 ''t0ken'' empty_state no_secret_request
       = (empty_state,
          Json 400 (OAuthError ''invalid_request'' (Some ''Missing client_id or client_secret'')))
   \<and> oauth_token example_lib example_config 1000 ''t0ken'' empty_state password_request
       = (empty_state,
          Json 400 (OAuthError ''unsupported_grant_type''
                      (Some ''Supported grant types: authorization_code, client_credentials'')))
   \<and> oauth_token example_lib api_key_only_config 1000 ''t0ken'' empty_state password_request
       = (empty_state,
          Json 400 (OAuthError ''unsupported_grant_type''
                      (Some ''OAuth is not configured on this server'')))
   \<and> authorization basic_request = Some ''Basic aG9tZWxhYjpodW50ZXIy''
   \<and> requested_grant example_lib basic_request = Some (JString ''client_credentials'')
   \<and> snd (oauth_token example_lib example_config 1000 ''t0ken'' empty_state basic_request)
       = Json 200 (TokenBody \<lparr>access_token = ''t0ken'', token_type = ''Bearer'', expires_in = 3600\<rparr>)"
proof -
  let ?st = "fst (createAuthorizationCode 0 ''c0de'' empty_state ''intruder'' ''https://app/cb''
                    ''bKE9UspwyIPg8LsQHkJaiehiTeUdstI5JZOvaoQRgJA'' ''S256'')"
  let ?code = "\<lambda>k. map_option JString
                 ([''grant_type'' \<mapsto> ''authorization_code'', ''code'' \<mapsto> ''c0de'',
                   ''code_verifier'' \<mapsto> ''abc123'', ''redirect_uri'' \<mapsto> ''https://app/cb'',
                   ''client_id'' \<mapsto> ''intruder''] k)"
  let ?bare = "\<lambda>k. map_option JString ([''grant_type'' \<mapsto> ''authorization_code''] k)"
  let ?cred = "\<lambda>k. map_option JString
                 ([''grant_type'' \<mapsto> ''client_credentials'', ''client_id'' \<mapsto> ''homelab'',
                   ''client_secret'' \<mapsto> ''hunter2''] k)"
  let ?wrong = "\<lambda>k. map_option JString
                  ([''grant_type'' \<mapsto> ''client_credentials'', ''client_id'' \<mapsto> ''homelab'',
                    ''client_secret'' \<mapsto> ''hunter3''] k)"
  let ?nosec = "\<lambda>k. map_option JString
                  ([''grant_type'' \<mapsto> ''client_credentials'', ''client_id'' \<mapsto> ''homelab''] k)"
  let ?pass = "\<lambda>k. map_option JString
                 ([''grant_type'' \<mapsto> ''password'', ''username'' \<mapsto> ''u'',
                   ''password'' \<mapsto> ''p''] k)"
  let ?body = "\<lambda>k. map_option JString ([''grant_type'' \<mapsto> ''client_credentials''] k)"
  let ?basic = "?body(''client_id'' := or_else_val (?body ''client_id'') ''homelab'',
                      ''client_secret'' := or_else_val (?body ''client_secret'') ''hunter2'')"
  have cfgs: "hasOAuth example_config" "\<not> hasOAuth api_key_only_config"
      "oauthClientId example_config = Some ''homelab''"
      "oauthClientSecret example_config = Some ''hunter2''"
    by (simp_all add: example_configs) (simp_all add: example_config_def)
  have strings: "string_fields ?bare" "string_fields ?nosec" "string_fields ?pass"
    by (simp_all add: string_fields_def token_fields_def)
  note resp = oauth_token_responses
                [where L = example_lib and now = 1000 and rnd = "''t0ken''" and h = "[]"
                   and bid = "[]" and bsecret = "[]" and b = Map.empty]
  have r1: "snd (oauth_token example_lib example_config 1000 ''t0ken'' ?st code_request)
              = Json 200 (TokenBody \<lparr>access_token = ''t0ken'', token_type = ''Bearer'',
                                      expires_in = 3600\<rparr>)"
    using resp [where req = code_request and p = ?code and cfg = example_config and st = ?st
                  and code = "''c0de''" and ver = "''abc123''" and ruri = "''https://app/cb''"
                  and cid = "''intruder''" and csecret = "[]"]
          cfgs(1) intruder_code_valid form_requests_parsed(1)
    by (simp add: crypto_sha256_example)
  have r2: "snd (oauth_token example_lib example_config 1000 ''t0ken'' empty_state code_request)
              = Json 400 (OAuthError ''invalid_grant'' (Some ''Invalid authorization code''))"
    using resp [where req = code_request and p = ?code and cfg = example_config
                  and st = empty_state and code = "''c0de''" and ver = "''abc123''"
                  and ruri = "''https://app/cb''" and cid = "''intruder''" and csecret = "[]"]
          cfgs(1) unknown_code_invalid form_requests_parsed(1)
    by (simp add: crypto_sha256_example)
  have r3: "oauth_token example_lib example_config 1000 ''t0ken'' empty_state bare_code_request
              = (empty_state,
                 Json 400 (OAuthError ''invalid_request''
                             (Some ''Missing code, code_verifier, redirect_uri, or client_id'')))"
    using resp [where req = bare_code_request and p = ?bare and cfg = example_config
                  and st = empty_state and code = "[]" and ver = "[]" and ruri = "[]"
                  and cid = "[]" and csecret = "[]"]
          cfgs(1) strings(1) form_requests_parsed(2)
    by simp
  have r4: "snd (oauth_token example_lib example_config 1000 ''t0ken'' empty_state
                   credentials_request)
              = Json 200 (TokenBody \<lparr>access_token = ''t0ken'', token_type = ''Bearer'',
                                      expires_in = 3600\<rparr>)"
    using resp [where req = credentials_request and p = ?cred and cfg = example_config
                  and st = empty_state and code = "[]" and ver = "[]" and ruri = "[]"
                  and cid = "''homelab''" and csecret = "''hunter2''"]
          cfgs form_requests_parsed(3)
    by simp
  have r5: "oauth_token example_lib example_config 1000 ''t0ken'' empty_state wrong_secret_request
              = (empty_state,
                 Json 401 (OAuthError ''invalid_client'' (Some ''Invalid client credentials'')))"
    using resp [where req = wrong_secret_request and p = ?wrong and cfg = example_config
                  and st = empty_state and code = "[]" and ver = "[]" and ruri = "[]"
                  and cid = "''homelab''" and csecret = "''hunter3''"]
          cfgs form_requests_parsed(4)
    by simp
  have r6: "oauth_token example_lib example_config 1000 ''t0ken'' empty_state no_secret_request
              = (empty_state,
                 Json 400 (OAuthError ''invalid_request''
                             (Some ''Missing client_id or client_secret'')))"
    using resp [where req = no_secret_request and p = ?nosec and cfg = example_config
                  and st = empty_state and code = "[]" and ver = "[]" and ruri = "[]"
                  and cid = "[]" and csecret = "[]"]
          cfgs(1) strings(2) form_requests_parsed(5)
    by simp
  have r7: "oauth_token example_lib example_config 1000 ''t0ken'' empty_state password_request
              = (empty_state,
                 Json 400 (OAuthError ''unsupported_grant_type''
                             (Some ''Supported grant types: authorization_code, client_credentials'')))"
    using resp [where req = password_request and p = ?pass and cfg = example_config
                  and st = empty_state and code = "[]" and ver = "[]" and ruri = "[]"
                  and cid = "[]" and csecret = "[]"]
          cfgs(1) strings(3) form_requests_parsed(6)
    by simp
  have r8: "oauth_token example_lib api_key_only_config 1000 ''t0ken'' empty_state password_request
              = (empty_state,
                 Json 400 (OAuthError ''unsupported_grant_type''
                             (Some ''OAuth is not configured on this server'')))"
    using resp [where req = password_request and p = ?pass and cfg = api_key_only_config
                  and st = empty_state and code = "[]" and ver = "[]" and ruri = "[]"
                  and cid = "[]" and csecret = "[]"]
          cfgs(2)
    by simp
  have header: "authorization basic_request = Some ''Basic aG9tZWxhYjpodW50ZXIy''"
    by (simp add: basic_request_def)
  have merged: "read_token_params example_lib basic_request = Some ?basic"
    using oauth_token_responses
            [where L = example_lib and req = basic_request and h = "''Basic aG9tZWxhYjpodW50ZXIy''"
               and bid = "''homelab''" and bsecret = "''hunter2''" and b = ?body
               and cfg = example_config and now = 1000 and rnd = "''t0ken''" and st = empty_state
               and p = ?basic and code = "[]" and ver = "[]" and ruri = "[]"
               and cid = "''homelab''" and csecret = "''hunter2''"]
          header basic_header_parsed basic_request_body
    by simp
  have fields: "?basic ''grant_type'' = Some (JString ''client_credentials'')"
      "?basic ''client_id'' = Some (JString ''homelab'')"
      "?basic ''client_secret'' = Some (JString ''hunter2'')"
    by (simp_all add: or_else_val_def)
  have grant: "requested_grant example_lib basic_request = Some (JString ''client_credentials'')"
    by (simp only: requested_grant_def merged option.case fields)
  have r9: "snd (oauth_token example_lib example_config 1000 ''t0ken'' empty_state basic_request)
              = Json 200 (TokenBody \<lparr>access_token = ''t0ken'', token_type = ''Bearer'',
                                      expires_in = 3600\<rparr>)"
    using oauth_token_responses
            [where L = example_lib and req = basic_request and h = "''Basic aG9tZWxhYjpodW50ZXIy''"
               and bid = "''homelab''" and bsecret = "''hunter2''" and b = ?body
               and cfg = example_config and now = 1000 and rnd = "''t0ken''" and st = empty_state
               and p = ?basic and code = "[]" and ver = "[]" and ruri = "[]"
               and cid = "''homelab''" and csecret = "''hunter2''"]
          cfgs merged fields
    by simp
  from form_requests_parsed(1) r1 r2 r3 r4 r5 r6 r7 r8 header grant r9 show ?thesis
    by (intro conjI)
qed

subsection \<open>Requests that make the handler throw\<close>

text \<open>
  Two requests that the statement above leaves out, on a server with an OAuth client. A
  form body with a malformed percent escape is answered with 500. A JSON body whose
  verifier is a number, presented for a stored code with method \<^verbatim>\<open>S256\<close>, is
  answered with 500 too, and the code is gone from the store.
\<close>

lemma malformed_body_server_error:
  "oauth_token example_lib example_config 1000 ''t0ken'' empty_state malformed_request
     = (empty_state, server_error)"
  using oauth_token_server_error(1) [OF example_configs(1) malformed_request_fails] .

lemma numeric_verifier_parsed:
  "read_token_params example_lib numeric_verifier_request
     = Some [''grant_type'' \<mapsto> JString ''authorization_code'', ''code'' \<mapsto> JString ''c0de'',
             ''code_verifier'' \<mapsto> JOther True True None,
             ''redirect_uri'' \<mapsto> JString ''https://app/cb'',
             ''client_id'' \<mapsto> JString ''intruder'']"
  by (simp add: read_token_params_def numeric_verifier_request_def example_lib_def
                example_JSON_parse_def)

lemma numeric_verifier_server_error:
  "oauth_token example_lib example_config 1000 ''t0ken''
     (fst (createAuthorizationCode 0 ''c0de'' empty_state ''intruder'' ''https://app/cb''
             ''bKE9UspwyIPg8LsQHkJaiehiTeUdstI5JZOvaoQRgJA'' ''S256''))
     numeric_verifier_request
     = (empty_state, server_error)"
proof -
  let ?st = "fst (createAuthorizationCode 0 ''c0de'' empty_state ''intruder'' ''https://app/cb''
                    ''bKE9UspwyIPg8LsQHkJaiehiTeUdstI5JZOvaoQRgJA'' ''S256'')"
  have "validateAuthorizationCode_js (crypto_sha256 example_lib) 1000 ?st (JString ''c0de'')
          (JString ''intruder'') (JString ''https://app/cb'') (JOther True True None)
          = (?st\<lparr>authorizationCodes := AList.delete ''c0de'' (authorizationCodes ?st)\<rparr>, None)"
    by (rule validateAuthorizationCode_js_throws [OF createAuthorizationCode_lookup]) simp_all
  moreover have "?st\<lparr>authorizationCodes := AList.delete ''c0de'' (authorizationCodes ?st)\<rparr>
                   = empty_state"
    by (simp add: createAuthorizationCode_def empty_state_def Let_def)
  ultimately show ?thesis
    using oauth_token_server_error(3)
            [OF example_configs(1) numeric_verifier_parsed,
             where code = "JString ''c0de''" and ver = "JOther True True None"
               and ruri = "JString ''https://app/cb''" and cid = "JString ''intruder''"
               and now = 1000 and st = ?st and st' = empty_state and rnd = "''t0ken''"]
    by (simp add: truthy_def)
qed
subsection \<open>The client id in the authorization-code flow\<close>

text \<open>
  Claim C10, as amended. On a server with a configured OAuth client, the
  authorization-code flow never compares the presented client id with the configured
  one. For every non-empty client id, an authorization request with response type
  \<^verbatim>\<open>code\<close>, a redirect URI that parses as a URL and a code challenge stores a code
  bound to that client id and redirects to the redirect URI with the code. A token
  request with grant type \<^verbatim>\<open>authorization_code\<close> that presents the code before its
  expiry with the same client id and redirect URI and a verifier that passes the PKCE
  check, all as strings, is answered with 200 and a bearer token, and that token is
  accepted by \<open>validateAccessToken\<close> and at the bearer check of the protocol endpoint for
  the next 3600000 milliseconds. Both endpoints answer the same under any other
  configuration with an OAuth client: of the configuration they read only whether the
  client is configured. On a server without one the authorization request is answered
  with 400 and no code is made.
\<close>

theorem code_flow_accepts_any_client_id:
  assumes cfg: "hasOAuth cfg"
    and q: "query ''response_type'' = Some ''code''"
      "query ''client_id'' = Some cid" "cid \<noteq> []"
      "query ''redirect_uri'' = Some ruri" "ruri \<noteq> []"
      "query ''code_challenge'' = Some ch" "ch \<noteq> []"
    and url: "url_accepts L ruri"
    and m: "m = (case or_else (query ''code_challenge_method'') ''plain'' of
                   None \<Rightarrow> ''plain'' | Some x \<Rightarrow> x)"
    and st1: "st1 = fst (createAuthorizationCode t0 rnd st cid ruri ch m)"
    and parsed: "read_token_params L req = Some p"
    and p: "p ''grant_type'' = Some (JString ''authorization_code'')"
      "p ''code'' = Some (JString rnd)" "rnd \<noteq> []"
      "p ''code_verifier'' = Some (JString ver)" "ver \<noteq> []"
      "p ''redirect_uri'' = Some (JString ruri)" "p ''client_id'' = Some (JString cid)"
    and pkce: "validatePKCE (crypto_sha256 L) ver ch m"
    and in_time: "t1 \<le> t0 + 600000" "t2 \<le> t1 + 3600000"
  shows
  "(\<exists>ps. authorize L cfg t0 rnd st query = Some (st1, Redirect ruri ((''code'', rnd) # ps)))
   \<and> map_of (authorizationCodes st1) rnd
       = Some \<lparr>codeChallenge = ch, codeChallengeMethod = m, clientId = cid, redirectUri = ruri,
               expiresAt = t0 + 600000\<rparr>
   \<and> snd (oauth_token L cfg t1 rnd' st1 req)
       = Json 200 (TokenBody \<lparr>access_token = rnd', token_type = ''Bearer'', expires_in = 3600\<rparr>)
   \<and> snd (validateAccessToken t2 (fst (oauth_token L cfg t1 rnd' st1 req)) rnd' cfg)
   \<and> snd (mcp_authenticated t2 (fst (oauth_token L cfg t1 rnd' st1 req))
            (Some (''Bearer '' @ rnd')) cfg)
   \<and> (hasOAuth cfg' \<longrightarrow>
        authorize L cfg' t0 rnd st query = authorize L cfg t0 rnd st query
        \<and> oauth_token L cfg' t1 rnd' st1 req = oauth_token L cfg t1 rnd' st1 req)
   \<and> (\<not> hasOAuth cfg' \<longrightarrow>
        authorize L cfg' t0 rnd st query
          = Some (st, Json 400 (OAuthError ''OAuth not configured'' None)))"
proof -
  let ?v = "validateAuthorizationCode (crypto_sha256 L) t1 st1 rnd cid ruri ver"
  have auth: "authorize L c t0 rnd st query
                = Some (st1,
                        Redirect ruri
                          ((''code'', rnd) #
                           (case query ''state'' of
                              None \<Rightarrow> []
                            | Some s \<Rightarrow> if truthy s then [(''state'', s)] else [])))"
    if "hasOAuth c" for c
    using authorize_issues [OF that q, of L t0 rnd st] m st1 url by simp
  have redirect: "\<exists>ps. authorize L cfg t0 rnd st query
                         = Some (st1, Redirect ruri ((''code'', rnd) # ps))"
    by (simp add: auth [OF cfg])
  have stored: "map_of (authorizationCodes st1) rnd
                  = Some \<lparr>codeChallenge = ch, codeChallengeMethod = m, clientId = cid,
                          redirectUri = ruri, expiresAt = t0 + 600000\<rparr>"
    unfolding st1 by (rule createAuthorizationCode_lookup)
  have v: "snd ?v = \<lparr>valid = True, error = None\<rparr>"
    using pkce in_time(1) by (simp add: validateAuthorizationCode_present [OF stored])
  have tok: "oauth_token L c t1 rnd' st1 req = token_success t1 rnd' (fst ?v)" if "hasOAuth c" for c
    using oauth_token_code_present [OF that parsed p(1,2,4,6,7), of t1 rnd' st1] p(3,5) q(3,5) v
    by (simp add: truthy_def split_beta)
  have response: "snd (oauth_token L cfg t1 rnd' st1 req)
                    = Json 200 (TokenBody \<lparr>access_token = rnd', token_type = ''Bearer'',
                                            expires_in = 3600\<rparr>)"
    by (simp add: tok [OF cfg] token_success_response)
  have st2: "fst (oauth_token L cfg t1 rnd' st1 req) = fst (issueToken t1 rnd' (fst ?v))"
    by (simp add: tok [OF cfg] token_success_store)
  have accepted: "snd (validateAccessToken t2 (fst (issueToken t1 rnd' (fst ?v))) rnd' cfg)"
    using in_time(2) by (simp add: validateAccessToken_result issueToken_lookup)
  have bearer: "snd (mcp_authenticated t2 (fst (issueToken t1 rnd' (fst ?v)))
                       (Some (''Bearer '' @ rnd')) cfg)"
    using accepted by (simp add: mcp_authenticated_def startsWith_def truthy_def)
  have same: "hasOAuth cfg' \<longrightarrow>
        authorize L cfg' t0 rnd st query = authorize L cfg t0 rnd st query
        \<and> oauth_token L cfg' t1 rnd' st1 req = oauth_token L cfg t1 rnd' st1 req"
    by (simp add: auth cfg tok)
  have refused: "\<not> hasOAuth cfg' \<longrightarrow>
        authorize L cfg' t0 rnd st query
          = Some (st, Json 400 (OAuthError ''OAuth not configured'' None))"
    by (simp add: authorize_def)
  from redirect stored response accepted bearer same refused show ?thesis
    unfolding st2 by (intro conjI)
qed

text \<open>
  The claim as it stands has no condition on the configuration or on the redirect URI.
  On a server that runs with an API key only, the authorization request is answered with
  400 and the store stays empty. On a server with an OAuth client, a redirect URI that is
  no URL ends the request without a response or a state.
\<close>

theorem code_flow_counterexample:
  "authorize example_lib api_key_only_config 0 ''c0de'' empty_state example_authorize_query
     = Some (empty_state, Json 400 (OAuthError ''OAuth not configured'' None))
   \<and> authorize example_lib example_config 0 ''c0de'' empty_state bad_redirect_query = None"
proof -
  have q: "bad_redirect_query ''response_type'' = Some ''code''"
      "bad_redirect_query ''client_id'' = Some ''intruder''" "''intruder'' \<noteq> []"
      "bad_redirect_query ''redirect_uri'' = Some ''not-a-url''" "''not-a-url'' \<noteq> []"
      "bad_redirect_query ''code_challenge'' = Some ''bKE9UspwyIPg8LsQHkJaiehiTeUdstI5JZOvaoQRgJA''"
      "''bKE9UspwyIPg8LsQHkJaiehiTeUdstI5JZOvaoQRgJA'' \<noteq> []"
    by (simp_all add: bad_redirect_query_def example_authorize_query_def)
  have "\<not> url_accepts example_lib ''not-a-url''"
    by (simp add: example_lib_def startsWith_def)
  then have "authorize example_lib example_config 0 ''c0de'' empty_state bad_redirect_query = None"
    by (simp add: authorize_issues [OF example_configs(1) q])
  moreover have "authorize example_lib api_key_only_config 0 ''c0de'' empty_state
                   example_authorize_query
                   = Some (empty_state, Json 400 (OAuthError ''OAuth not configured'' None))"
    using example_configs(2) by (simp add: authorize_def)
  ultimately show ?thesis
    by (intro conjI)
qed

theorem code_flow_accepts_any_client_id_witness:
  "oauthClientId example_config \<noteq> Some ''intruder''
   \<and> authorize example_lib example_config 0 ''c0de'' empty_state example_authorize_query
       = Some (fst (createAuthorizationCode 0 ''c0de'' empty_state ''intruder'' ''https://app/cb''
                      ''bKE9UspwyIPg8LsQHkJaiehiTeUdstI5JZOvaoQRgJA'' ''S256''),
               Redirect ''https://app/cb'' [(''code'', ''c0de''), (''state'', ''xyz'')])
   \<and> snd (oauth_token example_lib example_config 1000 ''t0ken''
            (fst (createAuthorizationCode 0 ''c0de'' empty_state ''intruder'' ''https://app/cb''
                    ''bKE9UspwyIPg8LsQHkJaiehiTeUdstI5JZOvaoQRgJA'' ''S256''))
            code_request)
       = Json 200 (TokenBody \<lparr>access_token = ''t0ken'', token_type = ''Bearer'', expires_in = 3600\<rparr>)
   \<and> snd (mcp_authenticated 2000
            (fst (oauth_token example_lib example_config 1000 ''t0ken''
                    (fst (createAuthorizationCode 0 ''c0de'' empty_state ''intruder''
                            ''https://app/cb'' ''bKE9UspwyIPg8LsQHkJaiehiTeUdstI5JZOvaoQRgJA''
                            ''S256''))
                    code_request))
            (Some (''Bearer '' @ ''t0ken'')) example_config)"
proof -
  let ?st1 = "fst (createAuthorizationCode 0 ''c0de'' empty_state ''intruder'' ''https://app/cb''
                     ''bKE9UspwyIPg8LsQHkJaiehiTeUdstI5JZOvaoQRgJA'' ''S256'')"
  let ?p = "\<lambda>k. map_option JString
              ([''grant_type'' \<mapsto> ''authorization_code'', ''code'' \<mapsto> ''c0de'',
                ''code_verifier'' \<mapsto> ''abc123'', ''redirect_uri'' \<mapsto> ''https://app/cb'',
                ''client_id'' \<mapsto> ''intruder''] k)"
  have other: "oauthClientId example_config \<noteq> Some ''intruder''"
    by (simp add: example_config_def)
  have q: "example_authorize_query ''response_type'' = Some ''code''"
      "example_authorize_query ''client_id'' = Some ''intruder''" "''intruder'' \<noteq> []"
      "example_authorize_query ''redirect_uri'' = Some ''https://app/cb''" "''https://app/cb'' \<noteq> []"
      "example_authorize_query ''code_challenge'' = Some ''bKE9UspwyIPg8LsQHkJaiehiTeUdstI5JZOvaoQRgJA''"
      "''bKE9UspwyIPg8LsQHkJaiehiTeUdstI5JZOvaoQRgJA'' \<noteq> []"
    by (simp_all add: example_authorize_query_def)
  have url: "url_accepts example_lib ''https://app/cb''"
    by (simp add: example_lib_def startsWith_def)
  have m: "''S256'' = (case or_else (example_authorize_query ''code_challenge_method'') ''plain'' of
                         None \<Rightarrow> ''plain'' | Some x \<Rightarrow> x)"
    by (simp add: example_authorize_query_def or_else_def truthy_def)
  have st1: "?st1 = fst (createAuthorizationCode 0 ''c0de'' empty_state ''intruder'' ''https://app/cb''
                           ''bKE9UspwyIPg8LsQHkJaiehiTeUdstI5JZOvaoQRgJA'' ''S256'')"
    by (rule refl)
  have p: "?p ''grant_type'' = Some (JString ''authorization_code'')"
      "?p ''code'' = Some (JString ''c0de'')" "''c0de'' \<noteq> []"
      "?p ''code_verifier'' = Some (JString ''abc123'')" "''abc123'' \<noteq> []"
      "?p ''redirect_uri'' = Some (JString ''https://app/cb'')"
      "?p ''client_id'' = Some (JString ''intruder'')"
    by simp_all
  have pkce: "validatePKCE (crypto_sha256 example_lib) ''abc123''
                ''bKE9UspwyIPg8LsQHkJaiehiTeUdstI5JZOvaoQRgJA'' ''S256''"
    by (simp add: crypto_sha256_example validatePKCE_def example_digest)
  have in_time: "(1000::int) \<le> 0 + 600000" "(2000::int) \<le> 1000 + 3600000"
    by simp_all
  note flow = code_flow_accepts_any_client_id
                [OF example_configs(1) q url m st1 form_requests_parsed(1) p pkce in_time,
                 where rnd' = "''t0ken''" and cfg' = example_config]
  have redirected:
    "authorize example_lib example_config 0 ''c0de'' empty_state example_authorize_query
       = Some (?st1, Redirect ''https://app/cb'' [(''code'', ''c0de''), (''state'', ''xyz'')])"
  proof -
    have state: "example_authorize_query ''state'' = Some ''xyz''"
      by (simp add: example_authorize_query_def)
    have chosen: "or_else (example_authorize_query ''code_challenge_method'') ''plain''
                    = Some ''S256''"
      by (simp add: example_authorize_query_def or_else_def truthy_def)
    show ?thesis
      using url
      by (simp add: authorize_issues [OF example_configs(1) q] state chosen truthy_def)
  qed
  from other redirected flow show ?thesis
    by blast
qed

end
